theory Spec2Isabelle
  imports Complex_Main "HOL-Library.AList" "HOL-Library.Char_ord" "HOL-Library.List_Lexorder"
begin

section \<open>Data model\<close>

text \<open>
  The two scripts \<^verbatim>\<open>basic_analysis.py\<close> and \<^verbatim>\<open>advanced_analysis.py\<close> work on pandas
  data frames whose cells are floating-point numbers. The embedding reads a number as a
  real and a data frame as the ordered list of its named columns. Arithmetic is exact,
  with one exception: the two bounds of the trim step are rounded to double precision
  as the code computes them, because that rounding decides which rows are kept.
  A statistic that pandas reports as NaN is the value \<open>None\<close> of \<open>real option\<close>.
  An exception of the Python code is a value of \<open>py_error\<close>.

  The library calls the scripts make (\<^verbatim>\<open>pandas.read_excel\<close>, \<^verbatim>\<open>numpy.interp\<close>,
  \<^verbatim>\<open>scipy.integrate.cumulative_trapezoid\<close>, \<^verbatim>\<open>Series.mean\<close>, \<^verbatim>\<open>Series.std\<close>,
  \<^verbatim>\<open>DataFrame.groupby(...).mean\<close>) are embedded by what their documentation says they
  return on numeric input.
\<close>

datatype py_error = AttributeError | FileError | IndexError | KeyError | ValueError

type_synonym series = "real list"

type_synonym dataframe = "(string \<times> series) list"

text \<open>A spreadsheet file: its sheets by name, or \<open>None\<close> when the file cannot be opened.\<close>

type_synonym source = "(string \<times> dataframe) list option"

text \<open>The data folder: file names in the order of \<^verbatim>\<open>os.listdir\<close>, each with its content.\<close>

type_synonym folder = "(string \<times> source) list"

definition DATA_FOLDER :: string where
  "DATA_FOLDER = ''Datasets''"

definition TRIM_SECONDS :: real where
  "TRIM_SECONDS = 1"

definition path_join :: "string \<Rightarrow> string \<Rightarrow> string" where
  "path_join d f = d @ ''/'' @ f"

subsection \<open>Strings\<close>

text \<open>\<^verbatim>\<open>p in s\<close> on strings: \<open>p\<close> occurs in \<open>s\<close> as a contiguous substring.\<close>

primrec py_in :: "string \<Rightarrow> string \<Rightarrow> bool" where
  "py_in p [] = (p = [])"
| "py_in p (c # cs) = (take (length p) (c # cs) = p \<or> py_in p cs)"

definition endswith :: "string \<Rightarrow> string \<Rightarrow> bool" where
  "endswith s suf = (length suf \<le> length s \<and> drop (length s - length suf) s = suf)"

definition is_excel :: "string \<Rightarrow> bool" where
  "is_excel f = (endswith f ''.xls'' \<or> endswith f ''.xlsx'')"

text \<open>\<^verbatim>\<open>str.lower\<close>, on the ASCII letters.\<close>

definition lower_char :: "char \<Rightarrow> char" where
  "lower_char c = (if CHR ''A'' \<le> c \<and> c \<le> CHR ''Z'' then char_of (of_char c + (32::nat)) else c)"

definition lower :: "string \<Rightarrow> string" where
  "lower s = map lower_char s"

text \<open>
  \<^verbatim>\<open>os.path.splitext(f)[0]\<close> for a bare file name: everything before the last dot,
  unless only dots precede it.
\<close>

definition splitext_root :: "string \<Rightarrow> string" where
  "splitext_root f =
     (let ext = takeWhile (\<lambda>c. c \<noteq> CHR ''.'') (rev f);
          stem = take (length f - length ext - 1) f
      in if length ext = length f then f
         else if \<forall>c \<in> set stem. c = CHR ''.'' then f
         else stem)"

text \<open>The character class \<^verbatim>\<open>[a-zA-Z]\<close> of the grouping regular expression.\<close>

definition is_alpha :: "char \<Rightarrow> bool" where
  "is_alpha c = ((CHR ''a'' \<le> c \<and> c \<le> CHR ''z'') \<or> (CHR ''A'' \<le> c \<and> c \<le> CHR ''Z''))"

subsection \<open>Data frames\<close>

text \<open>\<^verbatim>\<open>[c for c in df.columns if pat in c][0]\<close>: the first matching column name.\<close>

definition first_match :: "string \<Rightarrow> dataframe \<Rightarrow> py_error + string" where
  "first_match pat df =
     (case filter (py_in pat) (map fst df) of
        [] \<Rightarrow> Inl IndexError
      | c # _ \<Rightarrow> Inr c)"

text \<open>\<^verbatim>\<open>df.rename(columns={old: new})\<close>.\<close>

definition rename :: "string \<Rightarrow> string \<Rightarrow> dataframe \<Rightarrow> dataframe" where
  "rename old new df = map (\<lambda>(n, v). (if n = old then new else n, v)) df"

text \<open>\<^verbatim>\<open>df[col]\<close> as a read.\<close>

definition getitem :: "dataframe \<Rightarrow> string \<Rightarrow> py_error + series" where
  "getitem df col = (case map_of df col of None \<Rightarrow> Inl KeyError | Some v \<Rightarrow> Inr v)"

text \<open>
  \<^verbatim>\<open>df[col] = v\<close>: an existing column is replaced where it stands, a new one is
  appended on the right.
\<close>

definition setitem :: "dataframe \<Rightarrow> string \<Rightarrow> series \<Rightarrow> dataframe" where
  "setitem df col v = AList.update col v df"

text \<open>\<^verbatim>\<open>df[mask]\<close>: the rows at which the mask is true, in every column.\<close>

definition select_rows :: "bool list \<Rightarrow> series \<Rightarrow> series" where
  "select_rows keep v = map snd (filter fst (zip keep v))"

definition boolean_index :: "bool list \<Rightarrow> dataframe \<Rightarrow> dataframe" where
  "boolean_index keep df = map (\<lambda>(n, v). (n, select_rows keep v)) df"

text \<open>\<^verbatim>\<open>df.empty\<close>: no column, or no row.\<close>

definition frame_empty :: "dataframe \<Rightarrow> bool" where
  "frame_empty df = (case df of [] \<Rightarrow> True | (n, v) # _ \<Rightarrow> v = [])"

text \<open>
  A sheet as the scripts expect it: column names pairwise different, at most
  one of them containing \<^verbatim>\<open>Time\<close>, and all columns of one length.
\<close>

definition wf_sheet :: "dataframe \<Rightarrow> bool" where
  "wf_sheet df =
     (distinct (map fst df) \<and> length (filter (py_in ''Time'') (map fst df)) \<le> 1 \<and>
      list_all (\<lambda>c. length (snd c) = length (snd (hd df))) df)"

text \<open>A merged frame: names pairwise different, all columns as long as its time axis.\<close>

definition wf_frame :: "dataframe \<Rightarrow> series \<Rightarrow> bool" where
  "wf_frame df t = (distinct (map fst df) \<and> map_of df ''Time'' = Some t \<and>
     list_all (\<lambda>c. length (snd c) = length t) df)"

subsection \<open>Library calls\<close>

definition read_excel :: "source \<Rightarrow> string \<Rightarrow> py_error + dataframe" where
  "read_excel src sheet =
     (case src of
        None \<Rightarrow> Inl FileError
      | Some wb \<Rightarrow> (case map_of wb sheet of None \<Rightarrow> Inl ValueError | Some df \<Rightarrow> Inr df))"

text \<open>
  \<^verbatim>\<open>numpy.interp(x, xp, fp)\<close> for increasing \<open>xp\<close>: the value at one point is found in
  the segment \<open>xp[j] \<le> x < xp[j+1]\<close>; left of the first and right of the last sample
  point the boundary value is returned.
\<close>

fun interp_seg :: "real \<Rightarrow> series \<Rightarrow> series \<Rightarrow> real" where
  "interp_seg x (a # b # xp) (fa # fb # fp) =
     (if x < b then (if a = x then fa else (fb - fa) / (b - a) * (x - a) + fa)
      else interp_seg x (b # xp) (fb # fp))"
| "interp_seg x [a] [fa] = fa"
| "interp_seg x _ _ = 0"

definition interp_point :: "real \<Rightarrow> series \<Rightarrow> series \<Rightarrow> real" where
  "interp_point x xp fp =
     (if x > last xp then last fp
      else if x < hd xp then hd fp
      else interp_seg x xp fp)"

definition np_interp :: "series \<Rightarrow> series \<Rightarrow> series \<Rightarrow> py_error + series" where
  "np_interp x xp fp =
     (if xp = [] then Inl ValueError
      else if length fp \<noteq> length xp then Inl ValueError
      else Inr (map (\<lambda>v. interp_point v xp fp) x))"

text \<open>
  \<^verbatim>\<open>cumulative_trapezoid(y, x, initial=0)\<close>: the running sum of
  \<open>d * (y[1:] + y[:-1]) / 2\<close> with \<open>d = diff(x)\<close>, behind a leading 0. An empty
  \<open>y\<close>, or an \<open>x\<close> of another length, raises \<^verbatim>\<open>ValueError\<close>.
\<close>

fun diff :: "series \<Rightarrow> series" where
  "diff (a # b # xs) = (b - a) # diff (b # xs)"
| "diff _ = []"

fun pair_sums :: "series \<Rightarrow> series" where
  "pair_sums (a # b # ys) = (b + a) # pair_sums (b # ys)"
| "pair_sums _ = []"

fun cumsum_from :: "real \<Rightarrow> series \<Rightarrow> series" where
  "cumsum_from acc [] = []"
| "cumsum_from acc (x # xs) = (acc + x) # cumsum_from (acc + x) xs"

definition cumulative_trapezoid :: "series \<Rightarrow> series \<Rightarrow> py_error + series" where
  "cumulative_trapezoid y x =
     (if y = [] then Inl ValueError
      else if length (diff x) \<noteq> length y - 1 then Inl ValueError
      else Inr (0 # cumsum_from 0 (map (\<lambda>(d, s). d * s / 2) (zip (diff x) (pair_sums y)))))"

text \<open>\<^verbatim>\<open>numpy.degrees\<close>.\<close>

definition degrees :: "series \<Rightarrow> series" where
  "degrees a = map (\<lambda>r. r * 180 / pi) a"

text \<open>\<^verbatim>\<open>Series.min()\<close> and \<^verbatim>\<open>Series.max()\<close>; NaN on an empty series.\<close>

fun series_min :: "series \<Rightarrow> real option" where
  "series_min [] = None"
| "series_min (x # xs) = Some (fold min xs x)"

fun series_max :: "series \<Rightarrow> real option" where
  "series_max [] = None"
| "series_max (x # xs) = Some (fold max xs x)"

text \<open>\<^verbatim>\<open>Series.mean()\<close>; NaN on an empty series.\<close>

definition pd_mean :: "series \<Rightarrow> real option" where
  "pd_mean v = (if v = [] then None else Some (sum_list v / real (length v)))"

text \<open>
  \<^verbatim>\<open>Series.std(ddof)\<close>: the square root of the sum of squared deviations from the
  mean over \<open>n - ddof\<close>; NaN when \<open>n - ddof \<le> 0\<close>.
\<close>

definition pd_std :: "nat \<Rightarrow> series \<Rightarrow> real option" where
  "pd_std ddof v =
     (if length v \<le> ddof then None
      else Some (sqrt (sum_list (map (\<lambda>x. (x - sum_list v / real (length v))\<^sup>2) v)
                        / real (length v - ddof))))"

section \<open>Series Loader\<close>

text \<open>
  The body of the \<^verbatim>\<open>try\<close> block shared by both scripts' \<^verbatim>\<open>load_phyphox_xls\<close>:
  read the two sheets, rename each time column to \<^verbatim>\<open>Time\<close>, copy the accelerometer
  frame and assign every gyroscope channel, interpolated on the accelerometer's
  timestamps, as a column of the copy.
\<close>

fun merge_loop :: "series \<Rightarrow> series \<Rightarrow> dataframe \<Rightarrow> dataframe \<Rightarrow> dataframe \<Rightarrow> py_error + dataframe" where
  "merge_loop acc_time gyro_time df_gyro [] df_merged = Inr df_merged"
| "merge_loop acc_time gyro_time df_gyro ((col, g) # rest) df_merged =
     (if col \<noteq> ''Time'' then
        (case getitem df_gyro col of
           Inl e \<Rightarrow> Inl e
         | Inr fp \<Rightarrow>
             (case np_interp acc_time gyro_time fp of
                Inl e \<Rightarrow> Inl e
              | Inr v \<Rightarrow> merge_loop acc_time gyro_time df_gyro rest (setitem df_merged col v)))
      else merge_loop acc_time gyro_time df_gyro rest df_merged)"

definition merge_frames :: "dataframe \<Rightarrow> dataframe \<Rightarrow> py_error + dataframe" where
  "merge_frames df_acc0 df_gyro0 =
     (case first_match ''Time'' df_acc0 of
        Inl e \<Rightarrow> Inl e
      | Inr acc_t \<Rightarrow>
     (case first_match ''Time'' df_gyro0 of
        Inl e \<Rightarrow> Inl e
      | Inr gyro_t \<Rightarrow>
     (let df_acc = rename acc_t ''Time'' df_acc0;
          df_gyro = rename gyro_t ''Time'' df_gyro0
      in case getitem df_acc ''Time'' of
           Inl e \<Rightarrow> Inl e
         | Inr acc_time \<Rightarrow>
        (case getitem df_gyro ''Time'' of
           Inl e \<Rightarrow> Inl e
         | Inr gyro_time \<Rightarrow> merge_loop acc_time gyro_time df_gyro df_gyro df_acc))))"

definition read_and_merge :: "source \<Rightarrow> py_error + dataframe" where
  "read_and_merge src =
     (case read_excel src ''Accelerometer'' of
        Inl e \<Rightarrow> Inl e
      | Inr df_acc \<Rightarrow>
     (case read_excel src ''Gyroscope'' of
        Inl e \<Rightarrow> Inl e
      | Inr df_gyro \<Rightarrow> merge_frames df_acc df_gyro))"

text \<open>
  Rounding to double precision (IEEE 754 binary64, round to nearest, ties to even), for
  magnitudes in the normal range: \<open>binade x\<close> is the exponent \<open>e\<close> with
  \<open>2\<^sup>e \<le> |x| < 2\<^sup>e\<^sup>+\<^sup>1\<close>, \<open>ulp x\<close> the spacing \<open>2\<^sup>e\<^sup>-\<^sup>5\<^sup>2\<close> of the doubles
  there, and \<open>round_double x\<close> the multiple of that spacing nearest to \<open>x\<close>. The sum or
  difference of two doubles as the machine computes it is the rounded exact result.
\<close>

fun bit_length :: "nat \<Rightarrow> nat" where
  "bit_length n = (if n = 0 then 0 else Suc (bit_length (n div 2)))"

declare bit_length.simps [simp del]

definition round_half_even :: "real \<Rightarrow> int" where
  "round_half_even q =
     (let f = \<lfloor>q\<rfloor>; r = q - of_int f
      in if r < 1/2 then f else if r > 1/2 then f + 1 else if even f then f else f + 1)"

definition binade :: "real \<Rightarrow> int" where
  "binade x =
     (if \<bar>x\<bar> \<ge> 1 then int (bit_length (nat \<lfloor>\<bar>x\<bar>\<rfloor>)) - 1
      else - int (bit_length (nat (\<lceil>1 / \<bar>x\<bar>\<rceil> - 1))))"

definition ulp :: "real \<Rightarrow> real" where
  "ulp x = (if binade x \<ge> 52 then 2 ^ nat (binade x - 52) else 1 / 2 ^ nat (52 - binade x))"

definition round_double :: "real \<Rightarrow> real" where
  "round_double x = (if x = 0 then 0 else of_int (round_half_even (x / ulp x)) * ulp x)"

text \<open>A number that is a double: rounding leaves it as it is.\<close>

definition is_double :: "real \<Rightarrow> bool" where
  "is_double x = (round_double x = x)"

text \<open>
  The trim step, written the same way in \<^verbatim>\<open>advanced_analysis.load_phyphox_xls\<close> and in
  \<^verbatim>\<open>basic_analysis.process_and_plot\<close>: keep the rows with
  \<open>Time \<ge> min + trim\<close> and \<open>Time \<le> max - trim\<close>, where the sum and the difference are
  the doubles the machine computes. The margin is the module constant
  \<^verbatim>\<open>TRIM_SECONDS\<close>, passed here as a parameter.
\<close>

definition trim_mask :: "real \<Rightarrow> series \<Rightarrow> bool list" where
  "trim_mask trim_seconds t =
     (case (series_min t, series_max t) of
        (Some lo, Some hi) \<Rightarrow>
          (let t_min = round_double (lo + trim_seconds);
               t_max = round_double (hi - trim_seconds)
           in map (\<lambda>x. x \<ge> t_min \<and> x \<le> t_max) t)
      | _ \<Rightarrow> map (\<lambda>x. False) t)"

definition trim :: "real \<Rightarrow> dataframe \<Rightarrow> py_error + dataframe" where
  "trim trim_seconds df =
     (case getitem df ''Time'' of
        Inl e \<Rightarrow> Inl e
      | Inr t \<Rightarrow> Inr (boolean_index (trim_mask trim_seconds t) df))"

text \<open>
  What a script prints about a file or about the calibration; the lines that open and
  close a run are not recorded. The loader returns the lines it printed together with
  its result; \<open>None\<close> is Python's \<^verbatim>\<open>None\<close>.
\<close>

datatype log_line =
    ErrorReading string py_error
  | ErrorLoading string py_error
  | Processed string
  | GeneratedVelocity string
  | GeneratedHeading string
  | CalibrationWarning
  | CalibratingWith string
  | BiasLine string "real option"

definition basic_load_phyphox_xls :: "string \<Rightarrow> source \<Rightarrow> log_line list \<times> dataframe option" where
  "basic_load_phyphox_xls filepath src =
     (case read_and_merge src of
        Inl e \<Rightarrow> ([ErrorReading filepath e], None)
      | Inr df_merged \<Rightarrow> ([], Some df_merged))"

definition advanced_load_phyphox_xls :: "real \<Rightarrow> string \<Rightarrow> source \<Rightarrow> log_line list \<times> dataframe option" where
  "advanced_load_phyphox_xls trim_seconds filepath src =
     (case read_and_merge src of
        Inl e \<Rightarrow> ([ErrorLoading filepath e], None)
      | Inr df_merged \<Rightarrow>
          (case trim trim_seconds df_merged of
             Inl e \<Rightarrow> ([ErrorLoading filepath e], None)
           | Inr df_trim \<Rightarrow> ([], Some df_trim)))"

section \<open>Drift-Corrected Integrator (advanced\_analysis.py)\<close>

text \<open>
  The bias table is the dictionary \<^verbatim>\<open>get_calibration_bias\<close> returns before the loop
  over the files starts; the analyses only read it. A figure handed to
  \<^verbatim>\<open>plt.savefig\<close> is a record of the file name and the plotted sequences.
  The analyses are embedded for a bias table whose entries are numbers.
\<close>

type_synonym bias_table = "string \<rightharpoonup> real"

definition ADVANCED_OUTPUT_FOLDER :: string where
  "ADVANCED_OUTPUT_FOLDER = ''Output_Advanced''"

text \<open>\<^verbatim>\<open>bias.get(col, 0)\<close>.\<close>

definition bias_get :: "bias_table \<Rightarrow> string \<Rightarrow> real" where
  "bias_get bias col = (case bias col of None \<Rightarrow> 0 | Some b \<Rightarrow> b)"

record drift_plot =
  drift_file :: string
  drift_time :: series
  vel_raw :: series
  vel_corr :: series

record heading_plot =
  heading_file :: string
  heading_time :: series
  angle_deg :: series

definition analyze_drift :: "dataframe \<Rightarrow> string \<Rightarrow> bias_table \<Rightarrow> py_error + drift_plot" where
  "analyze_drift df filename bias =
     (case first_match ''Acceleration y'' df of
        Inl e \<Rightarrow> Inl e
      | Inr acc_col \<Rightarrow>
     (case getitem df ''Time'' of
        Inl e \<Rightarrow> Inl e
      | Inr time \<Rightarrow>
     (case getitem df acc_col of
        Inl e \<Rightarrow> Inl e
      | Inr acc_raw \<Rightarrow>
     (case cumulative_trapezoid acc_raw time of
        Inl e \<Rightarrow> Inl e
      | Inr v_raw \<Rightarrow>
     (let acc_corr = map (\<lambda>a. a - bias_get bias acc_col) acc_raw
      in case cumulative_trapezoid acc_corr time of
           Inl e \<Rightarrow> Inl e
         | Inr v_corr \<Rightarrow>
             Inr \<lparr>drift_file = path_join ADVANCED_OUTPUT_FOLDER (filename @ ''_Drift_Compare.png''),
                  drift_time = time, vel_raw = v_raw, vel_corr = v_corr\<rparr>)))))"

definition analyze_heading :: "dataframe \<Rightarrow> string \<Rightarrow> bias_table \<Rightarrow> py_error + heading_plot" where
  "analyze_heading df filename bias =
     (case first_match ''Gyroscope z'' df of
        Inl e \<Rightarrow> Inl e
      | Inr gyro_col \<Rightarrow>
     (case getitem df ''Time'' of
        Inl e \<Rightarrow> Inl e
      | Inr time \<Rightarrow>
     (case getitem df gyro_col of
        Inl e \<Rightarrow> Inl e
      | Inr gyro_raw \<Rightarrow>
     (let gyro_corr = map (\<lambda>g. g - bias_get bias gyro_col) gyro_raw
      in case cumulative_trapezoid gyro_corr time of
           Inl e \<Rightarrow> Inl e
         | Inr angle_rad \<Rightarrow>
             Inr \<lparr>heading_file = path_join ADVANCED_OUTPUT_FOLDER (filename @ ''_Heading.png''),
                  heading_time = time, angle_deg = degrees angle_rad\<rparr>))))"

text \<open>
  The loop over the files. A run is what it printed and saved, in order, and the
  exception that ended it, if one did: an exception raised outside the loader's
  \<^verbatim>\<open>try\<close> block is caught nowhere.
\<close>

datatype adv_output = Printed log_line | Drift drift_plot | Heading heading_plot

definition emit :: "'o list \<Rightarrow> 'o list \<times> 'r \<Rightarrow> 'o list \<times> 'r" where
  "emit xs run = (xs @ fst run, snd run)"

fun process_files :: "bias_table \<Rightarrow> real \<Rightarrow> folder \<Rightarrow> adv_output list \<times> py_error option" where
  "process_files bias trim_seconds [] = ([], None)"
| "process_files bias trim_seconds ((f, src) # files) =
     (let name = lower (splitext_root f) in
      if py_in ''stationary'' name then process_files bias trim_seconds files
      else
        (case advanced_load_phyphox_xls trim_seconds (path_join DATA_FOLDER f) src of
           (printed, None) \<Rightarrow> emit (map Printed printed) (process_files bias trim_seconds files)
         | (printed, Some df) \<Rightarrow>
             if py_in ''straight'' name \<or> py_in ''reverse'' name then
               (case analyze_drift df name bias of
                  Inl e \<Rightarrow> (map Printed printed, Some e)
                | Inr p \<Rightarrow>
                    emit (map Printed printed @ [Drift p, Printed (GeneratedVelocity name)])
                      (process_files bias trim_seconds files))
             else if py_in ''lane'' name then
               (case analyze_heading df name bias of
                  Inl e \<Rightarrow> (map Printed printed, Some e)
                | Inr p \<Rightarrow>
                    emit (map Printed printed @ [Heading p, Printed (GeneratedHeading name)])
                      (process_files bias trim_seconds files))
             else emit (map Printed printed) (process_files bias trim_seconds files)))"

text \<open>
  \<^verbatim>\<open>get_calibration_bias\<close>: the first file of the folder whose lower-cased name contains
  \<^verbatim>\<open>stationary\<close> is loaded, and the mean of each of its columns whose name does not
  contain \<^verbatim>\<open>Time\<close> is entered in the dictionary and printed. The loader's result is
  used unchecked: when the loader returned \<^verbatim>\<open>None\<close>, \<^verbatim>\<open>df.columns\<close> raises
  \<^verbatim>\<open>AttributeError\<close>. The mean of a column without rows is NaN.
\<close>

type_synonym calibration = "(string \<times> real option) list"

definition add_bias :: "string \<times> series \<Rightarrow> log_line list \<times> calibration \<Rightarrow> log_line list \<times> calibration" where
  "add_bias c st =
     (if \<not> py_in ''Time'' (fst c) then
        (fst st @ [BiasLine (fst c) (pd_mean (snd c))],
         AList.update (fst c) (pd_mean (snd c)) (snd st))
      else st)"

definition get_calibration_bias :: "real \<Rightarrow> folder \<Rightarrow> log_line list \<times> (py_error + calibration)" where
  "get_calibration_bias trim_seconds dir =
     (case filter (\<lambda>(f, src). py_in ''stationary'' (lower f) \<and> is_excel f) dir of
        [] \<Rightarrow> ([CalibrationWarning], Inr [])
      | (f, src) # _ \<Rightarrow>
          (case advanced_load_phyphox_xls trim_seconds (path_join DATA_FOLDER f) src of
             (printed, None) \<Rightarrow> (CalibratingWith f # printed, Inl AttributeError)
           | (printed, Some df) \<Rightarrow>
               (case fold add_bias df ([], []) of
                  (lines, bias) \<Rightarrow> (CalibratingWith f # printed @ lines, Inr bias))))"

text \<open>
  The dictionary as the bias table of numbers the analyses read, when none of its
  entries is NaN.
\<close>

definition numeric_bias :: "calibration \<Rightarrow> bias_table option" where
  "numeric_bias bias =
     (if None \<in> snd ` set bias then None else Some (\<lambda>col. map_option the (map_of bias col)))"

text \<open>
  The script: calibration, then the loop over the spreadsheet files of the folder. An
  exception raised by the calibration ends the run before the loop. The result is
  \<open>None\<close> where the calibration yields a NaN entry (a stationary recording that trimming
  empties): the script then goes on and draws corrected curves of NaN, which the
  figures of this embedding, sequences of reals, do not hold.
\<close>

definition advanced_main :: "folder \<Rightarrow> (adv_output list \<times> py_error option) option" where
  "advanced_main dir =
     (case get_calibration_bias TRIM_SECONDS dir of
        (printed, Inl e) \<Rightarrow> Some (map Printed printed, Some e)
      | (printed, Inr bias) \<Rightarrow>
          (case numeric_bias bias of
             None \<Rightarrow> None
           | Some table \<Rightarrow>
               Some (emit (map Printed printed)
                 (process_files table TRIM_SECONDS (filter (\<lambda>(f, src). is_excel f) dir)))))"

section \<open>Statistics Aggregator (basic\_analysis.py)\<close>

definition BASIC_OUTPUT_FOLDER :: string where
  "BASIC_OUTPUT_FOLDER = ''Output_Basic''"

record plot =
  plot_file :: string
  plot_time :: series
  plot_curves :: "(string \<times> series) list"

text \<open>
  One statistics dictionary: the entry \<^verbatim>\<open>Filename\<close>, which is set first, and the
  numeric entries in insertion order.
\<close>

record stat_record =
  Filename :: string
  entries :: "(string \<times> real option) list"

text \<open>The loop \<^verbatim>\<open>for axis in ['x', 'y', 'z']\<close> of one figure.\<close>

fun plot_axes :: "string \<Rightarrow> string \<Rightarrow> dataframe \<Rightarrow> string list \<Rightarrow> py_error + (string \<times> series) list" where
  "plot_axes kind lab df [] = Inr []"
| "plot_axes kind lab df (axis # axes) =
     (case first_match (kind @ '' '' @ axis) df of
        Inl e \<Rightarrow> Inl e
      | Inr col \<Rightarrow>
     (case getitem df col of
        Inl e \<Rightarrow> Inl e
      | Inr v \<Rightarrow>
     (case plot_axes kind lab df axes of
        Inl e \<Rightarrow> Inl e
      | Inr curves \<Rightarrow> Inr ((lab @ '' '' @ axis, v) # curves))))"

text \<open>The loop \<^verbatim>\<open>for col in df_trim.columns\<close> that fills the dictionary.\<close>

definition add_stats :: "string \<times> series \<Rightarrow> (string \<times> real option) list \<Rightarrow> (string \<times> real option) list" where
  "add_stats c stats =
     (if fst c \<noteq> ''Time'' then
        AList.update (fst c @ ''_Std'') (pd_std 1 (snd c))
          (AList.update (fst c @ ''_Mean'') (pd_mean (snd c)) stats)
      else stats)"

definition calculate_stats :: "dataframe \<Rightarrow> string \<Rightarrow> stat_record" where
  "calculate_stats df_trim filename = \<lparr>Filename = filename, entries = fold add_stats df_trim []\<rparr>"

text \<open>
  \<^verbatim>\<open>process_and_plot\<close> returns the figures it saved and either the exception it raised
  or its result, where \<open>None\<close> is Python's \<^verbatim>\<open>None\<close>.
\<close>

definition process_and_plot :: "real \<Rightarrow> dataframe \<Rightarrow> string \<Rightarrow> plot list \<times> (py_error + stat_record option)" where
  "process_and_plot trim_seconds df filename =
     (case trim trim_seconds df of
        Inl e \<Rightarrow> ([], Inl e)
      | Inr df_trim \<Rightarrow>
     (if frame_empty df_trim then ([], Inr None)
      else
     (case getitem df_trim ''Time'' of
        Inl e \<Rightarrow> ([], Inl e)
      | Inr time \<Rightarrow>
     (case plot_axes ''Acceleration'' ''Acc'' df_trim [''x'', ''y'', ''z''] of
        Inl e \<Rightarrow> ([], Inl e)
      | Inr acc \<Rightarrow>
     (let p1 = \<lparr>plot_file = path_join BASIC_OUTPUT_FOLDER (filename @ ''_Acc.png''),
                plot_time = time, plot_curves = acc\<rparr>
      in case plot_axes ''Gyroscope'' ''Gyro'' df_trim [''x'', ''y'', ''z''] of
           Inl e \<Rightarrow> ([p1], Inl e)
         | Inr gyro \<Rightarrow>
             ([p1, \<lparr>plot_file = path_join BASIC_OUTPUT_FOLDER (filename @ ''_Gyro.png''),
                    plot_time = time, plot_curves = gyro\<rparr>],
              Inr (Some (calculate_stats df_trim filename))))))))"

subsection \<open>The report\<close>

text \<open>
  \<^verbatim>\<open>pd.DataFrame(stats_list)\<close>: the columns are the keys in the order of their first
  appearance, a key missing from a dictionary gives a NaN cell. A row is the file name
  and the cells of the numeric columns.
\<close>

record report =
  report_columns :: "string list"
  report_rows :: "(string \<times> real option list) list"

definition first_seen :: "'a list \<Rightarrow> 'a list" where
  "first_seen xs = rev (remdups (rev xs))"

definition cell :: "stat_record \<Rightarrow> string \<Rightarrow> real option" where
  "cell s c = (case map_of (entries s) c of None \<Rightarrow> None | Some v \<Rightarrow> v)"

definition DataFrame :: "stat_record list \<Rightarrow> report" where
  "DataFrame stats_list =
     (let cols = first_seen (concat (map (\<lambda>s. map fst (entries s)) stats_list))
      in \<lparr>report_columns = cols,
          report_rows = map (\<lambda>s. (Filename s, map (cell s) cols)) stats_list\<rparr>)"

text \<open>
  The group of a file name: \<^verbatim>\<open>re.match(r"([a-zA-Z]+)", x)\<close> matches the longest run of
  letters at the start of the name, and fails when the name starts with none.
\<close>

definition group_key :: "string \<Rightarrow> string" where
  "group_key x = (case takeWhile is_alpha x of [] \<Rightarrow> ''Other'' | g \<Rightarrow> g)"

text \<open>The mean of a column within one group: pandas skips the NaN cells.\<close>

definition nan_mean :: "real option list \<Rightarrow> real option" where
  "nan_mean cells = pd_mean (map the (filter (\<lambda>c. c \<noteq> None) cells))"

text \<open>
  \<^verbatim>\<open>df.groupby('Group').mean(numeric_only=True).reset_index()\<close>, with the file name
  \<^verbatim>\<open>Group + "_avg"\<close>: one row for each group key, the keys sorted, which is the
  default of \<^verbatim>\<open>groupby\<close>.
\<close>

definition group_means :: "report \<Rightarrow> (string \<times> real option list) list" where
  "group_means df =
     (let keys = sort (remdups (map (\<lambda>r. group_key (fst r)) (report_rows df)))
      in map (\<lambda>g. (g @ ''_avg'',
                   map (\<lambda>j. nan_mean (map (\<lambda>r. snd r ! j)
                                         (filter (\<lambda>r. group_key (fst r) = g) (report_rows df))))
                       [0..<length (report_columns df)]))
             keys)"

text \<open>
  \<^verbatim>\<open>save_formatted_excel\<close>: the table \<^verbatim>\<open>df_final\<close> that is written to the report, or
  \<open>None\<close> when the function returns before writing anything.
\<close>

definition save_formatted_excel :: "stat_record list \<Rightarrow> report option" where
  "save_formatted_excel stats_list =
     (if stats_list = [] then None
      else (let df = DataFrame stats_list
            in Some \<lparr>report_columns = report_columns df,
                     report_rows = report_rows df @ group_means df\<rparr>))"

subsection \<open>The loop over the files\<close>




section \<open>Specification-side definitions\<close>

text \<open>
  The specification's wording of the interpolation: between two neighbouring sample
  points the value lies on the straight line through the two samples; at or left of the
  first sample point it is the first sample, at or right of the last it is the last.
\<close>

definition linear_interpolation :: "series \<Rightarrow> series \<Rightarrow> real \<Rightarrow> real \<Rightarrow> bool" where
  "linear_interpolation xp fp x y =
     ((\<forall>j. Suc j < length xp \<and> xp ! j \<le> x \<and> x \<le> xp ! Suc j \<longrightarrow>
           y = fp ! j + (x - xp ! j) * (fp ! Suc j - fp ! j) / (xp ! Suc j - xp ! j)) \<and>
      (x \<le> hd xp \<longrightarrow> y = hd fp) \<and>
      (last xp \<le> x \<longrightarrow> y = last fp))"

text \<open>
  The specification's wording of the cumulative trapezoidal rule: the integral is as
  long as the time axis, is 0 at the first sample, and grows at sample \<open>i\<close> by the
  mean of the two neighbouring values times the time step.
\<close>

definition trapezoid_rule :: "series \<Rightarrow> series \<Rightarrow> series \<Rightarrow> bool" where
  "trapezoid_rule t v integral =
     (length integral = length t \<and> integral ! 0 = 0 \<and>
      (\<forall>i. 1 \<le> i \<and> i < length t \<longrightarrow>
           integral ! i = integral ! (i - 1) + (v ! i + v ! (i - 1)) / 2 * (t ! i - t ! (i - 1))))"

text \<open>
  The specification's wording of the standard deviation: the sample definition, which
  divides by \<open>n - 1\<close> and is undefined (NaN) for fewer than two values.
\<close>

definition sample_std :: "series \<Rightarrow> real option" where
  "sample_std v =
     (if length v < 2 then None
      else Some (sqrt (sum_list (map (\<lambda>x. (x - sum_list v / real (length v))\<^sup>2) v)
                        / (real (length v) - 1))))"



text \<open>
  The arithmetic mean of the cells of a group's members, as the specification words
  it: the sum over the members divided by their number, which is NaN as soon as one
  member's cell is NaN.
\<close>

definition arithmetic_mean :: "real option list \<Rightarrow> real option" where
  "arithmetic_mean cells =
     (if cells = [] \<or> None \<in> set cells then None
      else Some (sum_list (map the cells) / real (length cells)))"

text \<open>
  The report read row by row: the group keys in the order of the average rows, the
  row of one trial and the average row of one group, each over the report's columns.
\<close>

definition group_keys :: "stat_record list \<Rightarrow> string list" where
  "group_keys stats_list = sort (remdups (map (\<lambda>s. group_key (Filename s)) stats_list))"

definition raw_row :: "string list \<Rightarrow> stat_record \<Rightarrow> string \<times> real option list" where
  "raw_row cols s = (Filename s, map (cell s) cols)"

definition average_row :: "string list \<Rightarrow> stat_record list \<Rightarrow> string \<Rightarrow> string \<times> real option list" where
  "average_row cols stats_list g =
     (g @ ''_avg'',
      map (\<lambda>c. nan_mean (map (\<lambda>s. cell s c) (filter (\<lambda>s. group_key (Filename s) = g) stats_list))) cols)"

section \<open>Example inputs\<close>

text \<open>
  A recording of four accelerometer samples and three gyroscope samples, and the
  frame both loaders merge them into.
\<close>

definition example_acc :: dataframe where
  "example_acc = [(''Time (s)'', [0, 1, 2, 3]), (''Acceleration x'', [1, 2, 3, 4]),
                  (''Acceleration y'', [0, 2, 0, 2]), (''Acceleration z'', [9, 9, 9, 9])]"

definition example_gyro :: dataframe where
  "example_gyro = [(''Time (s)'', [1/2, 3/2, 5/2]), (''Gyroscope x'', [1, 3, 5]),
                   (''Gyroscope y'', [0, 0, 0]), (''Gyroscope z'', [2, 4, 8])]"

definition example_merged :: dataframe where
  "example_merged = [(''Time'', [0, 1, 2, 3]), (''Acceleration x'', [1, 2, 3, 4]),
      (''Acceleration y'', [0, 2, 0, 2]), (''Acceleration z'', [9, 9, 9, 9]),
      (''Gyroscope x'', [1, 2, 4, 5]), (''Gyroscope y'', [0, 0, 0, 0]),
      (''Gyroscope z'', [2, 3, 6, 8])]"


text \<open>A merged frame of four samples, one second apart.\<close>

definition example_frame :: dataframe where
  "example_frame = [(''Time'', [0, 1, 2, 3]), (''Acceleration y'', [5, 6, 7, 8])]"

text \<open>A bias table with one entry.\<close>

definition example_bias :: bias_table where
  "example_bias = [''Acceleration y'' \<mapsto> 1]"

text \<open>A merged frame of three samples: trimming one second at both ends leaves one row.\<close>

definition one_row_frame :: dataframe where
  "one_row_frame = [(''Time'', [0, 1, 2]), (''Acceleration x'', [1, 2, 3]),
      (''Acceleration y'', [0, 2, 0]), (''Acceleration z'', [9, 9, 9]),
      (''Gyroscope x'', [1, 2, 4]), (''Gyroscope y'', [0, 0, 0]), (''Gyroscope z'', [2, 3, 6])]"

text \<open>
  Spreadsheet files: the example recording; the same recording without the
  \<^verbatim>\<open>Acceleration y\<close> column; a recording of one second, which trimming empties. With
  them, the frames the loaders make of them and the velocity figure of the example.
\<close>

definition example_workbook :: source where
  "example_workbook = Some [(''Accelerometer'', example_acc), (''Gyroscope'', example_gyro)]"


definition short_workbook :: source where
  "short_workbook = Some [(''Accelerometer'',
       [(''Time (s)'', [0, 1/2, 1]), (''Acceleration x'', [1, 2, 3]), (''Acceleration y'', [0, 2, 0]),
        (''Acceleration z'', [9, 9, 9])]),
     (''Gyroscope'',
       [(''Time (s)'', [0, 1/2, 1]), (''Gyroscope x'', [1, 3, 5]), (''Gyroscope y'', [0, 0, 0]),
        (''Gyroscope z'', [2, 4, 8])])]"



definition short_merged :: dataframe where
  "short_merged = [(''Time'', [0, 1/2, 1]), (''Acceleration x'', [1, 2, 3]),
      (''Acceleration y'', [0, 2, 0]), (''Acceleration z'', [9, 9, 9]), (''Gyroscope x'', [1, 3, 5]),
      (''Gyroscope y'', [0, 0, 0]), (''Gyroscope z'', [2, 4, 8])]"






text \<open>
  Statistics of two trials whose groups appear in the order zeta, alpha; statistics of
  three trials, the first with one row after trimming, and the report made of them.
\<close>

definition zeta_alpha_stats :: "stat_record list" where
  "zeta_alpha_stats =
     [\<lparr>Filename = ''zeta1'', entries = [(''a_Mean'', Some 2), (''a_Std'', Some 1)]\<rparr>,
      \<lparr>Filename = ''alpha1'', entries = [(''a_Mean'', Some 4), (''a_Std'', Some 1)]\<rparr>]"

definition bump_solo_stats :: "stat_record list" where
  "bump_solo_stats =
     [\<lparr>Filename = ''bump1'', entries = [(''a_Mean'', Some 2), (''a_Std'', None)]\<rparr>,
      \<lparr>Filename = ''bump2'', entries = [(''a_Mean'', Some 4), (''a_Std'', Some 1)]\<rparr>,
      \<lparr>Filename = ''solo'', entries = [(''a_Mean'', Some 5), (''a_Std'', Some 3)]\<rparr>]"

definition bump_solo_report_frame :: report where
  "bump_solo_report_frame =
     \<lparr>report_columns = [''a_Mean'', ''a_Std''],
      report_rows = [(''bump1'', [Some 2, None]), (''bump2'', [Some 4, Some 1]),
                     (''solo'', [Some 5, Some 3]),
                     (''bump_avg'', [Some 3, Some 1]), (''solo_avg'', [Some 5, Some 3])]\<rparr>"

section \<open>Trimming\<close>

lemma series_min_Min: "t \<noteq> [] \<Longrightarrow> series_min t = Some (Min (set t))"
  by (cases t) (simp_all add: Min.set_eq_fold[symmetric])

lemma series_max_Max: "t \<noteq> [] \<Longrightarrow> series_max t = Some (Max (set t))"
  by (cases t) (simp_all add: Max.set_eq_fold[symmetric])

lemma select_rows_map:
  "select_rows (map P t) v = map snd (filter (\<lambda>(x, y). P x) (zip t v))"
  unfolding select_rows_def
proof (induction t arbitrary: v)
  case Nil
  show ?case by simp
next
  case (Cons a t)
  show ?case by (cases v) (simp_all add: Cons.IH)
qed

lemma select_rows_all:
  "length v = length t \<Longrightarrow> \<forall>x \<in> set t. P x \<Longrightarrow> select_rows (map P t) v = v"
proof (induction t arbitrary: v)
  case Nil
  then show ?case by (simp add: select_rows_def)
next
  case (Cons a t)
  then show ?case by (cases v) (simp_all add: select_rows_def)
qed

lemma bit_length_small: "bit_length 0 = 0" "bit_length (Suc 0) = 1" "bit_length 1 = 1"
  "bit_length 2 = 2" "bit_length 3 = 2" "bit_length 7 = 3"
  by (simp_all add: bit_length.simps)

lemma round_double_small: "round_double 0 = 0" "round_double 1 = 1" "round_double 2 = 2"
  "round_double 3 = 3"
  by (simp_all add: round_double_def ulp_def binade_def round_half_even_def bit_length_small Let_def)

lemma trim_mask_rows:
  "select_rows (trim_mask ts t) v =
     map snd (filter (\<lambda>(x, y). round_double (Min (set t) + ts) \<le> x \<and>
                                 x \<le> round_double (Max (set t) - ts)) (zip t v))"
proof (cases "t = []")
  case True
  then show ?thesis by (simp add: trim_mask_def select_rows_def)
next
  case False
  then show ?thesis
    by (simp add: trim_mask_def series_min_Min series_max_Max select_rows_map)
qed

lemma trim_keep_iff:
  assumes "x \<in> set t" and "0 \<le> (ts::real)"
  shows "(Min (set t) + ts \<le> x \<and> x \<le> Max (set t) - ts) \<longleftrightarrow>
         \<not> (\<bar>x - Min (set t)\<bar> < ts \<or> \<bar>x - Max (set t)\<bar> < ts)"
proof -
  have "Min (set t) \<le> x" "x \<le> Max (set t)" using assms(1) by simp_all
  then show ?thesis by linarith
qed

lemma trim_mask_exact:
  assumes "0 \<le> ts"
    and "round_double (Min (set t) + ts) = Min (set t) + ts"
    and "round_double (Max (set t) - ts) = Max (set t) - ts"
  shows "select_rows (trim_mask ts t) v =
         map snd (filter (\<lambda>(x, y). \<not> (\<bar>x - Min (set t)\<bar> < ts \<or> \<bar>x - Max (set t)\<bar> < ts)) (zip t v))"
proof -
  have "filter (\<lambda>(x, y). Min (set t) + ts \<le> x \<and> x \<le> Max (set t) - ts) (zip t v) =
        filter (\<lambda>(x, y). \<not> (\<bar>x - Min (set t)\<bar> < ts \<or> \<bar>x - Max (set t)\<bar> < ts)) (zip t v)"
  proof (rule filter_cong[OF refl])
    fix p assume "p \<in> set (zip t v)"
    then have "fst p \<in> set t" by (metis in_set_zipE prod.collapse)
    from trim_keep_iff[OF this assms(1)]
    show "(case p of (x, y) \<Rightarrow> Min (set t) + ts \<le> x \<and> x \<le> Max (set t) - ts) =
          (case p of (x, y) \<Rightarrow> \<not> (\<bar>x - Min (set t)\<bar> < ts \<or> \<bar>x - Max (set t)\<bar> < ts))"
      by (simp add: case_prod_beta)
  qed
  then show ?thesis by (simp only: trim_mask_rows assms(2,3))
qed

lemma trim_mask_zero:
  assumes "length v = length t" and "list_all is_double t"
  shows "select_rows (trim_mask 0 t) v = v"
proof (cases "t = []")
  case True
  then show ?thesis using assms by (simp add: trim_mask_def select_rows_def)
next
  case False
  have "Min (set t) \<in> set t" "Max (set t) \<in> set t" using False by simp_all
  then have r: "round_double (Min (set t)) = Min (set t)" "round_double (Max (set t)) = Max (set t)"
    using assms(2) by (simp_all add: list_all_iff is_double_def)
  have "\<forall>x \<in> set t. Min (set t) \<le> x \<and> x \<le> Max (set t)" by simp
  then show ?thesis
    using False assms(1) by (simp add: trim_mask_def series_min_Min series_max_Max r select_rows_all)
qed

text \<open>
  Claim C7, as stated, fails: the code compares each timestamp with the bounds
  \<open>min + trim\<close> and \<open>max - trim\<close> as the machine computes them, and the rounding of a
  bound can keep a row that lies inside the margin. The timestamps here are the
  doubles written 0.13, 1.13, 2.13 and 3.13. The sum of the first and the margin 1
  rounds to the second, so the row of the second timestamp is kept, although it lies
  less than 1 after the first.
\<close>

theorem trim_keeps_row_inside_margin:
  "trim 1 [(''Time'', [1170935903116329 / 9007199254740992, 1272266894732165 / 1125899906842624,
                       2398166801574789 / 1125899906842624, 3524066708417413 / 1125899906842624])] =
     Inr [(''Time'', [1272266894732165 / 1125899906842624, 2398166801574789 / 1125899906842624])] \<and>
   \<bar>1272266894732165 / 1125899906842624 - 1170935903116329 / 9007199254740992\<bar> < (1::real) \<and>
   is_double (1170935903116329 / 9007199254740992) \<and>
   is_double (1272266894732165 / 1125899906842624) \<and>
   is_double (2398166801574789 / 1125899906842624) \<and>
   is_double (3524066708417413 / 1125899906842624)"
proof -
  have lo: "round_double (10178135157857321 / 9007199254740992) = 1272266894732165 / 1125899906842624"
    by (simp add: round_double_def ulp_def binade_def round_half_even_def bit_length_small Let_def)
  have hi: "round_double (2398166801574789 / 1125899906842624) = 2398166801574789 / 1125899906842624"
    by (simp add: round_double_def ulp_def binade_def round_half_even_def bit_length_small Let_def)
  have 1: "trim 1 [(''Time'', [1170935903116329 / 9007199254740992, 1272266894732165 / 1125899906842624,
                       2398166801574789 / 1125899906842624, 3524066708417413 / 1125899906842624])] =
     Inr [(''Time'', [1272266894732165 / 1125899906842624, 2398166801574789 / 1125899906842624])]"
    by (simp add: trim_def getitem_def trim_mask_def boolean_index_def select_rows_def Let_def lo hi)
  have 2: "\<bar>1272266894732165 / 1125899906842624 - 1170935903116329 / 9007199254740992\<bar> < (1::real)"
    by simp
  have 3: "is_double (1170935903116329 / 9007199254740992)" "is_double (1272266894732165 / 1125899906842624)"
    "is_double (2398166801574789 / 1125899906842624)" "is_double (3524066708417413 / 1125899906842624)"
    by (simp_all add: is_double_def round_double_def ulp_def binade_def round_half_even_def bit_length_small Let_def)
  show ?thesis using 1 2 3 by simp
qed

text \<open>
  Claim C7, amended. For a merged frame whose columns are as long as its time axis
  \<open>t\<close> and a margin \<open>trim_seconds \<ge> 0\<close>, trimming keeps in every column exactly the
  rows whose timestamp \<open>x\<close> satisfies \<open>min t + trim_seconds \<le> x\<close> and
  \<open>x \<le> max t - trim_seconds\<close>, in their order, where the two bounds are the doubles
  the machine computes. Where the two bounds are computed without rounding error,
  these are exactly the rows that satisfy neither \<open>|x - min t| < trim_seconds\<close> nor
  \<open>|x - max t| < trim_seconds\<close>. With margin 0 a frame of double timestamps is
  returned unchanged. Both scripts trim with this step:
  \<^verbatim>\<open>advanced_analysis.load_phyphox_xls\<close> after merging,
  \<^verbatim>\<open>basic_analysis.process_and_plot\<close> before plotting.
\<close>

theorem trim_keeps_rows_within_rounded_bounds:
  assumes "wf_frame df t" and "0 \<le> trim_seconds"
  shows "trim trim_seconds df =
           Inr (map (\<lambda>(n, v). (n, map snd (filter (\<lambda>(x, y).
                  round_double (Min (set t) + trim_seconds) \<le> x \<and>
                  x \<le> round_double (Max (set t) - trim_seconds)) (zip t v)))) df) \<and>
         (round_double (Min (set t) + trim_seconds) = Min (set t) + trim_seconds \<and>
          round_double (Max (set t) - trim_seconds) = Max (set t) - trim_seconds \<longrightarrow>
          trim trim_seconds df =
           Inr (map (\<lambda>(n, v). (n, map snd (filter (\<lambda>(x, y).
                  \<not> (\<bar>x - Min (set t)\<bar> < trim_seconds \<or> \<bar>x - Max (set t)\<bar> < trim_seconds)) (zip t v)))) df)) \<and>
         (list_all is_double t \<longrightarrow> trim 0 df = Inr df)"
proof (intro conjI impI)
  have t: "getitem df ''Time'' = Inr t" using assms(1) by (simp add: wf_frame_def getitem_def)
  have len: "\<forall>c \<in> set df. length (snd c) = length t"
    using assms(1) by (simp add: wf_frame_def list_all_iff)
  show "trim trim_seconds df =
           Inr (map (\<lambda>(n, v). (n, map snd (filter (\<lambda>(x, y).
                  round_double (Min (set t) + trim_seconds) \<le> x \<and>
                  x \<le> round_double (Max (set t) - trim_seconds)) (zip t v)))) df)"
    by (simp add: trim_def t boolean_index_def trim_mask_rows)
  {
    assume e: "round_double (Min (set t) + trim_seconds) = Min (set t) + trim_seconds \<and>
          round_double (Max (set t) - trim_seconds) = Max (set t) - trim_seconds"
    show "trim trim_seconds df =
           Inr (map (\<lambda>(n, v). (n, map snd (filter (\<lambda>(x, y).
                  \<not> (\<bar>x - Min (set t)\<bar> < trim_seconds \<or> \<bar>x - Max (set t)\<bar> < trim_seconds)) (zip t v)))) df)"
      using e by (simp add: trim_def t boolean_index_def trim_mask_exact[OF assms(2)])
  }
  {
    assume d: "list_all is_double t"
    have "boolean_index (trim_mask 0 t) df = df"
      unfolding boolean_index_def using len
      by (intro map_idI) (auto simp: trim_mask_zero[OF _ d])
    then show "trim 0 df = Inr df" by (simp add: trim_def t)
  }
qed

theorem trim_keeps_rows_within_rounded_bounds_witness:
  "wf_frame example_frame [0, 1, 2, 3] \<and> (0::real) \<le> 1 \<and>
   round_double (0 + 1) = 0 + 1 \<and> round_double (3 - 1) = 3 - 1 \<and>
   list_all is_double [0, 1, 2, 3] \<and>
   trim 1 example_frame = Inr [(''Time'', [1, 2]), (''Acceleration y'', [6, 7])] \<and>
   trim 0 example_frame = Inr example_frame"
proof -
  have w: "wf_frame example_frame [0, 1, 2, 3]"
    by (simp add: wf_frame_def example_frame_def)
  have z: "(0::real) \<le> 1" by simp
  have r: "round_double (0 + 1) = 0 + 1" "round_double (3 - 1) = 3 - 1"
    by (simp_all add: round_double_small)
  have m: "Min (set [0, 1, 2, 3 :: real]) = 0" "Max (set [0, 1, 2, 3 :: real]) = 3" by simp_all
  have d: "list_all is_double [0, 1, 2, 3]" by (simp add: is_double_def round_double_small)
  note t = trim_keeps_rows_within_rounded_bounds[OF w z]
  have e: "round_double (Min (set [0, 1, 2, 3]) + 1) = Min (set [0, 1, 2, 3]) + 1 \<and>
           round_double (Max (set [0, 1, 2, 3]) - 1) = Max (set [0, 1, 2, 3]) - 1"
    unfolding m using r by simp
  from t[THEN conjunct2, THEN conjunct1, rule_format, OF e]
  have 1: "trim 1 example_frame = Inr [(''Time'', [1, 2]), (''Acceleration y'', [6, 7])]"
    by (simp add: example_frame_def)
  from t[THEN conjunct2, THEN conjunct2, rule_format, OF d]
  have 2: "trim 0 example_frame = Inr example_frame" .
  show ?thesis using w z r d 1 2 by simp
qed

section \<open>Merging the two sheets\<close>

subsection \<open>Interpolation\<close>

lemma py_in_self: "py_in p p"
  by (cases p) simp_all

lemma interp_seg_at_head:
  "sorted_wrt (<) (a # xp) \<Longrightarrow> length fp = length xp \<Longrightarrow> interp_seg a (a # xp) (fa # fp) = fa"
  by (cases xp; cases fp) auto

lemma interp_seg_linear:
  "sorted_wrt (<) xp \<Longrightarrow> length fp = length xp \<Longrightarrow> Suc j < length xp \<Longrightarrow>
   xp ! j \<le> x \<Longrightarrow> x \<le> xp ! Suc j \<Longrightarrow>
   interp_seg x xp fp = fp ! j + (x - xp ! j) * (fp ! Suc j - fp ! j) / (xp ! Suc j - xp ! j)"
proof (induction x xp fp arbitrary: j rule: interp_seg.induct)
  case (1 x a b xp fa fb fp)
  show ?case
  proof (cases j)
    case 0
    have ab: "a < b" using "1.prems"(1) by simp
    have ax: "a \<le> x" and xb: "x \<le> b" using "1.prems"(4,5) 0 by simp_all
    show ?thesis
    proof (cases "x < b")
      case True
      then show ?thesis using 0 ab by (simp add: field_simps)
    next
      case False
      then have "x = b" using xb by simp
      moreover have "interp_seg b (b # xp) (fb # fp) = fb"
        using "1.prems"(1,2) by (intro interp_seg_at_head) simp_all
      ultimately show ?thesis using 0 ab by simp
    qed
  next
    case (Suc k)
    have "b \<le> (b # xp) ! k"
    proof (cases k)
      case 0 then show ?thesis by simp
    next
      case (Suc k')
      have "k' < length xp" using "1.prems"(3) \<open>j = Suc k\<close> Suc by simp
      then have "xp ! k' \<in> set xp" by simp
      then show ?thesis using "1.prems"(1) Suc by auto
    qed
    then have nb: "\<not> x < b" using "1.prems"(4) Suc by simp
    have "interp_seg x (b # xp) (fb # fp) =
          (fb # fp) ! k + (x - (b # xp) ! k) * ((fb # fp) ! Suc k - (fb # fp) ! k) / ((b # xp) ! Suc k - (b # xp) ! k)"
      using "1.prems" Suc nb by (intro "1.IH") simp_all
    then show ?thesis using nb Suc by simp
  qed
qed simp_all

lemma interp_seg_at_last:
  "sorted_wrt (<) xp \<Longrightarrow> length fp = length xp \<Longrightarrow> xp \<noteq> [] \<Longrightarrow>
   interp_seg (last xp) xp fp = last fp"
proof (induction xp arbitrary: fp)
  case Nil
  then show ?case by simp
next
  case (Cons a xp)
  then obtain fa fp' where fp: "fp = fa # fp'" by (cases fp) auto
  show ?case
  proof (cases xp)
    case Nil
    then show ?thesis using Cons.prems fp by simp
  next
    case (Cons b xp')
    then obtain fb fp'' where fp': "fp' = fb # fp''" using Cons.prems fp by (cases fp') auto
    have "b \<le> last xp"
    proof (cases xp')
      case Nil then show ?thesis using Cons by simp
    next
      case (Cons c xp'')
      then have "last xp \<in> set xp'" using \<open>xp = b # xp'\<close> by simp
      then show ?thesis using Cons.prems(1) \<open>xp = b # xp'\<close> by auto
    qed
    then have "\<not> last xp < b" by simp
    moreover have "interp_seg (last xp) xp fp' = last fp'"
      using Cons.prems fp \<open>xp = b # xp'\<close> by (intro Cons.IH) simp_all
    ultimately show ?thesis using \<open>xp = b # xp'\<close> fp fp' by simp
  qed
qed

lemma sorted_hd_le: "sorted_wrt (<) (xp::real list) \<Longrightarrow> j < length xp \<Longrightarrow> hd xp \<le> xp ! j"
  by (cases xp; cases j) (auto simp: less_imp_le)

lemma sorted_le_last: "sorted_wrt (<) (xp::real list) \<Longrightarrow> j < length xp \<Longrightarrow> xp ! j \<le> last xp"
proof -
  assume s: "sorted_wrt (<) xp" and j: "j < length xp"
  have "xp ! j \<le> xp ! (length xp - 1)"
  proof (cases "j = length xp - 1")
    case True then show ?thesis by simp
  next
    case False
    then have "j < length xp - 1" using j by simp
    then have "xp ! j < xp ! (length xp - 1)"
      using sorted_wrt_nth_less[OF s, of j "length xp - 1"] j by simp
    then show ?thesis by simp
  qed
  moreover have "xp \<noteq> []" using j by auto
  ultimately show ?thesis by (simp add: last_conv_nth)
qed

lemma interp_point_spec:
  assumes s: "sorted_wrt (<) xp" and l: "length fp = length xp" and ne: "xp \<noteq> []"
  shows "linear_interpolation xp fp x (interp_point x xp fp)"
  unfolding linear_interpolation_def
proof (intro conjI allI impI)
  fix j assume j: "Suc j < length xp \<and> xp ! j \<le> x \<and> x \<le> xp ! Suc j"
  have "hd xp \<le> xp ! j" using s j by (intro sorted_hd_le) simp_all
  moreover have "xp ! Suc j \<le> last xp" using s j by (intro sorted_le_last) simp_all
  ultimately have "\<not> x > last xp" "\<not> x < hd xp" using j by simp_all
  then show "interp_point x xp fp = fp ! j + (x - xp ! j) * (fp ! Suc j - fp ! j) / (xp ! Suc j - xp ! j)"
    using interp_seg_linear[OF s l, of j x] j by (simp add: interp_point_def)
next
  assume x: "x \<le> hd xp"
  have hl: "hd xp \<le> last xp" using sorted_le_last[OF s, of 0] ne by (simp add: hd_conv_nth)
  obtain a xp' where xp: "xp = a # xp'" using ne by (cases xp) auto
  then obtain fa fp' where fp: "fp = fa # fp'" using l by (cases fp) auto
  show "interp_point x xp fp = hd fp"
  proof (cases "x < hd xp")
    case True
    then show ?thesis using hl by (simp add: interp_point_def)
  next
    case False
    then have "x = a" using x xp by simp
    moreover have "interp_seg a (a # xp') (fa # fp') = fa"
      using s l xp fp by (intro interp_seg_at_head) simp_all
    ultimately show ?thesis using hl xp fp by (simp add: interp_point_def)
  qed
next
  assume x: "last xp \<le> x"
  have hl: "hd xp \<le> last xp" using sorted_le_last[OF s, of 0] ne by (simp add: hd_conv_nth)
  show "interp_point x xp fp = last fp"
  proof (cases "x > last xp")
    case True
    then show ?thesis by (simp add: interp_point_def)
  next
    case False
    then have "x = last xp" using x by simp
    then show ?thesis using hl interp_seg_at_last[OF s l ne] by (simp add: interp_point_def)
  qed
qed

subsection \<open>The time column and the merge loop\<close>

lemma time_column_unique:
  assumes "wf_sheet df" and "first_match ''Time'' df = Inr tc"
  shows "filter (py_in ''Time'') (map fst df) = [tc]"
proof -
  obtain rest where f: "filter (py_in ''Time'') (map fst df) = tc # rest"
    using assms(2) by (auto simp: first_match_def split: list.splits)
  moreover have "length (filter (py_in ''Time'') (map fst df)) \<le> 1"
    using assms(1) by (simp add: wf_sheet_def)
  ultimately show ?thesis by simp
qed

lemma time_column_iff:
  assumes "wf_sheet df" and "first_match ''Time'' df = Inr tc" and "n \<in> fst ` set df"
  shows "py_in ''Time'' n \<longleftrightarrow> n = tc"
proof -
  have "set (filter (py_in ''Time'') (map fst df)) = {tc}"
    using time_column_unique[OF assms(1,2)] by simp
  then have "{x \<in> fst ` set df. py_in ''Time'' x} = {tc}" by simp
  then show ?thesis using assms(3) by blast
qed

lemma time_column_mem:
  assumes "wf_sheet df" and "first_match ''Time'' df = Inr tc"
  shows "tc \<in> fst ` set df"
proof -
  have "tc \<in> set (filter (py_in ''Time'') (map fst df))"
    using time_column_unique[OF assms] by simp
  then show ?thesis by auto
qed

lemma rename_names:
  "map fst (rename old new df) = map (\<lambda>n. if n = old then new else n) (map fst df)"
  by (induction df) (auto simp: rename_def)

lemma rename_time_distinct:
  assumes "wf_sheet df" and "first_match ''Time'' df = Inr tc"
  shows "distinct (map fst (rename tc ''Time'' df))"
proof -
  have d: "distinct (map fst df)" using assms(1) by (simp add: wf_sheet_def)
  have "inj_on (\<lambda>n. if n = tc then ''Time'' else n) (set (map fst df))"
  proof (rule inj_onI)
    fix a b assume a: "a \<in> set (map fst df)" and b: "b \<in> set (map fst df)"
      and e: "(if a = tc then ''Time'' else a) = (if b = tc then ''Time'' else b)"
    have t: "\<And>n. n \<in> set (map fst df) \<Longrightarrow> n = ''Time'' \<Longrightarrow> n = tc"
    proof -
      fix n assume n: "n \<in> set (map fst df)" and e: "n = ''Time''"
      have "n \<in> fst ` set df" using n by simp
      moreover have "py_in ''Time'' n" unfolding e by (rule py_in_self)
      ultimately show "n = tc" using time_column_iff[OF assms] by blast
    qed
    show "a = b"
      using e t[OF a] t[OF b] by (auto split: if_splits)
  qed
  then have "distinct (map (\<lambda>n. if n = tc then ''Time'' else n) (map fst df))"
    using d by (subst distinct_map) simp
  then show ?thesis by (simp only: rename_names)
qed

lemma rename_mem:
  "(n, v) \<in> set df \<Longrightarrow> ((if n = old then new else n), v) \<in> set (rename old new df)"
  by (force simp: rename_def)

lemma rename_time_lookup:
  assumes "wf_sheet df" and "first_match ''Time'' df = Inr tc" and "(n, v) \<in> set df"
  shows "map_of (rename tc ''Time'' df) (if n = tc then ''Time'' else n) = Some v"
  using rename_time_distinct[OF assms(1,2)] rename_mem[OF assms(3)] by simp

lemma wf_sheet_lengths:
  assumes "wf_sheet df" and "(n, v) \<in> set df" and "(m, w) \<in> set df"
  shows "length v = length w"
proof -
  have "\<forall>c \<in> set df. length (snd c) = length (snd (hd df))"
    using assms(1) by (simp add: wf_sheet_def list_all_iff)
  then show ?thesis using assms(2,3) by (metis snd_conv)
qed

lemma update_append: "k \<notin> fst ` set al \<Longrightarrow> AList.update k v al = al @ [(k, v)]"
  by (induction al) auto

lemma merge_loop_lookup:
  assumes "merge_loop acc_time gyro_time df_gyro rest m = Inr m'"
    and "\<forall>(c, g) \<in> set rest. map_of df_gyro c = Some g"
  shows "map_of m' n =
           (if n \<noteq> ''Time'' \<and> n \<in> fst ` set rest
            then Some (map (\<lambda>x. interp_point x gyro_time (the (map_of df_gyro n))) acc_time)
            else map_of m n)"
  using assms
proof (induction rest arbitrary: m)
  case Nil
  then show ?case by simp
next
  case (Cons a rest)
  obtain col g where a: "a = (col, g)" by (cases a)
  have g: "map_of df_gyro col = Some g" using Cons.prems(2) a by simp
  have r: "\<forall>(c, g) \<in> set rest. map_of df_gyro c = Some g" using Cons.prems(2) by simp
  show ?case
  proof (cases "col = ''Time''")
    case True
    then have "merge_loop acc_time gyro_time df_gyro rest m = Inr m'"
      using Cons.prems(1) a by simp
    from Cons.IH[OF this r] show ?thesis using a True by auto
  next
    case False
    let ?v = "map (\<lambda>x. interp_point x gyro_time g) acc_time"
    have np: "np_interp acc_time gyro_time g = Inr ?v"
      using Cons.prems(1) a False g
      by (auto simp: getitem_def np_interp_def split: if_splits sum.splits)
    then have "merge_loop acc_time gyro_time df_gyro rest (setitem m col ?v) = Inr m'"
      using Cons.prems(1) a False g by (simp add: getitem_def)
    from Cons.IH[OF this r] show ?thesis
      using a False g by (auto simp: setitem_def update_conv')
  qed
qed

lemma merge_loop_total:
  assumes "gyro_time \<noteq> []"
    and "\<forall>(c, g) \<in> set rest. map_of df_gyro c = Some g \<and> length g = length gyro_time"
  shows "\<exists>m'. merge_loop acc_time gyro_time df_gyro rest m = Inr m'"
  using assms(2)
proof (induction rest arbitrary: m)
  case Nil
  then show ?case by simp
next
  case (Cons a rest)
  obtain col g where a: "a = (col, g)" by (cases a)
  have g: "map_of df_gyro col = Some g" "length g = length gyro_time"
    using Cons.prems a by simp_all
  have r: "\<forall>(c, g) \<in> set rest. map_of df_gyro c = Some g \<and> length g = length gyro_time"
    using Cons.prems by simp
  show ?case
    using Cons.IH[OF r] a g assms(1) by (simp add: getitem_def np_interp_def)
qed

lemma merge_loop_append:
  assumes "merge_loop acc_time gyro_time df_gyro rest m = Inr m'"
    and "\<forall>(c, g) \<in> set rest. map_of df_gyro c = Some g"
    and "distinct (map fst rest)"
    and "\<forall>c \<in> fst ` set rest. c \<noteq> ''Time'' \<longrightarrow> c \<notin> fst ` set m"
  shows "m' = m @ map (\<lambda>(c, g). (c, map (\<lambda>x. interp_point x gyro_time g) acc_time))
                    (filter (\<lambda>(c, g). c \<noteq> ''Time'') rest)"
  using assms
proof (induction rest arbitrary: m)
  case Nil
  then show ?case by simp
next
  case (Cons a rest)
  obtain col g where a: "a = (col, g)" by (cases a)
  have g: "map_of df_gyro col = Some g" using Cons.prems(2) a by simp
  have r: "\<forall>(c, g) \<in> set rest. map_of df_gyro c = Some g" using Cons.prems(2) by simp
  have d: "distinct (map fst rest)" "col \<notin> fst ` set rest" using Cons.prems(3) a by auto
  show ?case
  proof (cases "col = ''Time''")
    case True
    then have "merge_loop acc_time gyro_time df_gyro rest m = Inr m'"
      using Cons.prems(1) a by simp
    from Cons.IH[OF this r d(1)] show ?thesis using a True Cons.prems(4) by auto
  next
    case False
    let ?v = "map (\<lambda>x. interp_point x gyro_time g) acc_time"
    have np: "np_interp acc_time gyro_time g = Inr ?v"
      using Cons.prems(1) a False g
      by (auto simp: getitem_def np_interp_def split: if_splits sum.splits)
    have fresh: "col \<notin> fst ` set m" using Cons.prems(4) a False by simp
    have "merge_loop acc_time gyro_time df_gyro rest (m @ [(col, ?v)]) = Inr m'"
      using Cons.prems(1) a False g np by (simp add: getitem_def setitem_def update_append[OF fresh])
    moreover have "\<forall>c \<in> fst ` set rest. c \<noteq> ''Time'' \<longrightarrow> c \<notin> fst ` set (m @ [(col, ?v)])"
      using Cons.prems(4) d(2) by auto
    ultimately have "m' = (m @ [(col, ?v)]) @ map (\<lambda>(c, g). (c, map (\<lambda>x. interp_point x gyro_time g) acc_time))
                    (filter (\<lambda>(c, g). c \<noteq> ''Time'') rest)"
      using Cons.IH r d(1) by blast
    then show ?thesis using a False by simp
  qed
qed

lemma getitem_merge_framesD:
  assumes "merge_frames df_acc df_gyro = Inr merged"
  obtains acc_t gyro_t acc_time gyro_time where
    "first_match ''Time'' df_acc = Inr acc_t" "first_match ''Time'' df_gyro = Inr gyro_t"
    "map_of (rename acc_t ''Time'' df_acc) ''Time'' = Some acc_time"
    "map_of (rename gyro_t ''Time'' df_gyro) ''Time'' = Some gyro_time"
    "merge_loop acc_time gyro_time (rename gyro_t ''Time'' df_gyro) (rename gyro_t ''Time'' df_gyro)
       (rename acc_t ''Time'' df_acc) = Inr merged"
proof -
  obtain acc_t where a: "first_match ''Time'' df_acc = Inr acc_t"
    using assms unfolding merge_frames_def
    by (cases "first_match ''Time'' df_acc") simp_all
  obtain gyro_t where g: "first_match ''Time'' df_gyro = Inr gyro_t"
    using assms unfolding merge_frames_def
    by (cases "first_match ''Time'' df_gyro") (simp_all add: a)
  let ?A = "rename acc_t ''Time'' df_acc" and ?G = "rename gyro_t ''Time'' df_gyro"
  have m: "(case getitem ?A ''Time'' of Inl e \<Rightarrow> Inl e
            | Inr acc_time \<Rightarrow> (case getitem ?G ''Time'' of Inl e \<Rightarrow> Inl e
               | Inr gyro_time \<Rightarrow> merge_loop acc_time gyro_time ?G ?G ?A)) = Inr merged"
    using assms unfolding merge_frames_def by (simp only: a g sum.case Let_def)
  obtain acc_time where at: "getitem ?A ''Time'' = Inr acc_time"
    using m by (cases "getitem ?A ''Time''") simp_all
  obtain gyro_time where gt: "getitem ?G ''Time'' = Inr gyro_time"
    using m by (cases "getitem ?G ''Time''") (simp_all only: at sum.case sum.distinct)
  have ml: "merge_loop acc_time gyro_time ?G ?G ?A = Inr merged"
    using m by (simp only: at gt sum.case)
  have "map_of ?A ''Time'' = Some acc_time" "map_of ?G ''Time'' = Some gyro_time"
    using at gt by (simp_all add: getitem_def split: option.splits)
  then show ?thesis using that a g ml by blast
qed

lemma distinct_lookup_all:
  "distinct (map fst df) \<Longrightarrow> \<forall>(c, g) \<in> set df. map_of df c = Some g"
  by auto

lemma rename_length: "length (rename old new df) = length df"
  by (simp add: rename_def)

lemma rename_set_values:
  assumes "(c, g) \<in> set (rename old new df)"
  shows "\<exists>c0. (c0, g) \<in> set df \<and> c = (if c0 = old then new else c0)"
proof -
  from assms obtain p where p: "p \<in> set df" "(c, g) = (case p of (n, v) \<Rightarrow> (if n = old then new else n, v))"
    unfolding rename_def set_map image_iff by blast
  obtain n v where nv: "p = (n, v)" by (cases p)
  have "(n, g) \<in> set df" "c = (if n = old then new else n)" using p nv by simp_all
  then show ?thesis by blast
qed

lemma gyro_channel_not_time:
  assumes "wf_sheet df" and "first_match ''Time'' df = Inr tc" and "c \<in> fst ` set df" and "c \<noteq> tc"
  shows "c \<noteq> ''Time''"
proof
  assume "c = ''Time''"
  then have "py_in ''Time'' c" by (simp add: py_in_self)
  then show False using time_column_iff[OF assms(1,2,3)] assms(4) by simp
qed

lemma example_merge: "merge_frames example_acc example_gyro = Inr example_merged"
  by (simp add: example_acc_def example_gyro_def example_merged_def merge_frames_def
      first_match_def rename_def getitem_def np_interp_def interp_point_def setitem_def)

lemma example_acc_wf: "wf_sheet example_acc"
  by (simp add: wf_sheet_def example_acc_def)

lemma example_gyro_wf: "wf_sheet example_gyro"
  by (simp add: wf_sheet_def example_gyro_def)

lemma example_acc_time: "first_match ''Time'' example_acc = Inr ''Time (s)''"
  by (simp add: first_match_def example_acc_def)

lemma example_gyro_time: "first_match ''Time'' example_gyro = Inr ''Time (s)''"
  by (simp add: first_match_def example_gyro_def)

text \<open>
  Claim C4. For an accelerometer sheet and a gyroscope sheet with pairwise different
  column names, one time column each and columns of one length, where the gyroscope
  sheet has at least one row and its time column increases strictly, merging succeeds;
  the \<^verbatim>\<open>Time\<close> column of the merged frame is the accelerometer's time column (same
  length, same values), and every gyroscope channel of the merged frame has, at each
  accelerometer timestamp, the value of the linear interpolation between the two
  neighbouring gyroscope samples, and the first or last gyroscope sample at or beyond
  the ends of the gyroscope's time range.
\<close>

theorem merged_time_axis_and_interpolation:
  assumes acc: "wf_sheet df_acc" and gyro: "wf_sheet df_gyro"
    and at: "first_match ''Time'' df_acc = Inr acc_t" and atime: "map_of df_acc acc_t = Some acc_time"
    and gt: "first_match ''Time'' df_gyro = Inr gyro_t" and gtime: "map_of df_gyro gyro_t = Some gyro_time"
    and inc: "sorted_wrt (<) gyro_time" and ne: "gyro_time \<noteq> []"
  shows "\<exists>merged. merge_frames df_acc df_gyro = Inr merged \<and>
           getitem merged ''Time'' = Inr acc_time \<and>
           (\<forall>(c, g) \<in> set df_gyro. c \<noteq> gyro_t \<longrightarrow>
              (\<exists>v. getitem merged c = Inr v \<and> length v = length acc_time \<and>
                   (\<forall>i < length acc_time. linear_interpolation gyro_time g (acc_time ! i) (v ! i))))"
proof -
  let ?A = "rename acc_t ''Time'' df_acc" and ?G = "rename gyro_t ''Time'' df_gyro"
  have am: "(acc_t, acc_time) \<in> set df_acc" using atime by (rule map_of_SomeD)
  have gm: "(gyro_t, gyro_time) \<in> set df_gyro" using gtime by (rule map_of_SomeD)
  have At: "map_of ?A ''Time'' = Some acc_time"
    using rename_time_lookup[OF acc at am] by simp
  have Gt: "map_of ?G ''Time'' = Some gyro_time"
    using rename_time_lookup[OF gyro gt gm] by simp
  have Gd: "distinct (map fst ?G)" by (rule rename_time_distinct[OF gyro gt])
  have Gl: "\<forall>(c, g) \<in> set ?G. map_of ?G c = Some g" by (rule distinct_lookup_all[OF Gd])
  have Glen: "\<forall>(c, g) \<in> set ?G. length g = length gyro_time"
  proof (clarify)
    fix c g assume "(c, g) \<in> set ?G"
    then obtain c0 where "(c0, g) \<in> set df_gyro" using rename_set_values by blast
    then show "length g = length gyro_time" using wf_sheet_lengths[OF gyro _ gm] by blast
  qed
  have "\<forall>(c, g) \<in> set ?G. map_of ?G c = Some g \<and> length g = length gyro_time"
    using Gl Glen by auto
  from merge_loop_total[OF ne this]
  obtain merged where ml: "merge_loop acc_time gyro_time ?G ?G ?A = Inr merged" by blast
  have mf: "merge_frames df_acc df_gyro = Inr merged"
    using at gt At Gt ml by (simp add: merge_frames_def getitem_def)
  note look = merge_loop_lookup[OF ml Gl]
  have time: "getitem merged ''Time'' = Inr acc_time"
    using look[of "''Time''"] At by (simp add: getitem_def)
  have chan: "\<forall>(c, g) \<in> set df_gyro. c \<noteq> gyro_t \<longrightarrow>
              (\<exists>v. getitem merged c = Inr v \<and> length v = length acc_time \<and>
                   (\<forall>i < length acc_time. linear_interpolation gyro_time g (acc_time ! i) (v ! i)))"
  proof (clarify)
    fix c g assume cg: "(c, g) \<in> set df_gyro" and c: "c \<noteq> gyro_t"
    have cin: "c \<in> fst ` set df_gyro" using cg by force
    have nt: "c \<noteq> ''Time''" by (rule gyro_channel_not_time[OF gyro gt cin c])
    have "(c, g) \<in> set ?G" using rename_mem[OF cg, of gyro_t "''Time''"] c by simp
    then have G: "map_of ?G c = Some g" "c \<in> fst ` set ?G" using Gl by force+
    have len: "length g = length gyro_time" using wf_sheet_lengths[OF gyro cg gm] .
    let ?v = "map (\<lambda>x. interp_point x gyro_time g) acc_time"
    have "getitem merged c = Inr ?v" using look[of c] nt G by (simp add: getitem_def)
    moreover have "\<forall>i < length acc_time. linear_interpolation gyro_time g (acc_time ! i) (?v ! i)"
      using interp_point_spec[OF inc len ne] by simp
    ultimately show "\<exists>v. getitem merged c = Inr v \<and> length v = length acc_time \<and>
                   (\<forall>i < length acc_time. linear_interpolation gyro_time g (acc_time ! i) (v ! i))"
      by simp
  qed
  show ?thesis using mf time chan by blast
qed

theorem merged_time_axis_and_interpolation_witness:
  "wf_sheet example_acc \<and> wf_sheet example_gyro \<and>
   first_match ''Time'' example_acc = Inr ''Time (s)'' \<and>
   map_of example_acc ''Time (s)'' = Some [0, 1, 2, 3] \<and>
   first_match ''Time'' example_gyro = Inr ''Time (s)'' \<and>
   map_of example_gyro ''Time (s)'' = Some [1/2, 3/2, 5/2] \<and>
   sorted_wrt (<) [1/2, 3/2, 5/2 :: real] \<and> [1/2, 3/2, 5/2 :: real] \<noteq> [] \<and>
   getitem example_merged ''Time'' = Inr [0, 1, 2, 3] \<and>
   getitem example_merged ''Gyroscope z'' = Inr [2, 3, 6, 8] \<and>
   linear_interpolation [1/2, 3/2, 5/2] [2, 4, 8] 1 3 \<and>
   linear_interpolation [1/2, 3/2, 5/2] [2, 4, 8] 0 2 \<and>
   linear_interpolation [1/2, 3/2, 5/2] [2, 4, 8] 3 8"
proof -
  have a: "map_of example_acc ''Time (s)'' = Some [0, 1, 2, 3]" by (simp add: example_acc_def)
  have g: "map_of example_gyro ''Time (s)'' = Some [1/2, 3/2, 5/2]" by (simp add: example_gyro_def)
  have s: "sorted_wrt (<) [1/2, 3/2, 5/2 :: real]" by simp
  have n: "[1/2, 3/2, 5/2 :: real] \<noteq> []" by simp
  from merged_time_axis_and_interpolation[OF example_acc_wf example_gyro_wf example_acc_time a
      example_gyro_time g s n]
  obtain merged where mm: "merge_frames example_acc example_gyro = Inr merged"
    and c0: "getitem merged ''Time'' = Inr [0, 1, 2, 3] \<and>
           (\<forall>(c, g) \<in> set example_gyro. c \<noteq> ''Time (s)'' \<longrightarrow>
              (\<exists>v. getitem merged c = Inr v \<and> length v = length [0, 1, 2, 3::real] \<and>
                   (\<forall>i < length [0, 1, 2, 3::real]. linear_interpolation [1/2, 3/2, 5/2] g ([0, 1, 2, 3] ! i) (v ! i))))"
    by blast
  have "merged = example_merged" using mm example_merge by simp
  then have c: "getitem example_merged ''Time'' = Inr [0, 1, 2, 3] \<and>
           (\<forall>(c, g) \<in> set example_gyro. c \<noteq> ''Time (s)'' \<longrightarrow>
              (\<exists>v. getitem example_merged c = Inr v \<and> length v = length [0, 1, 2, 3::real] \<and>
                   (\<forall>i < length [0, 1, 2, 3::real]. linear_interpolation [1/2, 3/2, 5/2] g ([0, 1, 2, 3] ! i) (v ! i))))"
    using c0 by simp
  have m: "(''Gyroscope z'', [2, 4, 8]) \<in> set example_gyro" by (simp add: example_gyro_def)
  from c m have "\<exists>v. getitem example_merged ''Gyroscope z'' = Inr v \<and> length v = length [0, 1, 2, 3::real] \<and>
                   (\<forall>i < length [0, 1, 2, 3::real]. linear_interpolation [1/2, 3/2, 5/2] [2, 4, 8] ([0, 1, 2, 3] ! i) (v ! i))"
    by fastforce
  then obtain v where v: "getitem example_merged ''Gyroscope z'' = Inr v" "length v = 4"
     "\<forall>i < 4. linear_interpolation [1/2, 3/2, 5/2] [2, 4, 8] ([0, 1, 2, 3] ! i) (v ! i)"
    by auto
  have z: "getitem example_merged ''Gyroscope z'' = Inr [2, 3, 6, 8]"
    by (simp add: example_merged_def getitem_def)
  then have e: "v = [2, 3, 6, 8]" using v(1) by simp
  have "linear_interpolation [1/2, 3/2, 5/2] [2, 4, 8] 1 3" using v(3)[rule_format, of 1] e by simp
  moreover have "linear_interpolation [1/2, 3/2, 5/2] [2, 4, 8] 0 2" using v(3)[rule_format, of 0] e by simp
  moreover have "linear_interpolation [1/2, 3/2, 5/2] [2, 4, 8] 3 8" using v(3)[rule_format, of 3] e by simp
  ultimately show ?thesis
    using example_acc_wf example_gyro_wf example_acc_time a example_gyro_time g s n c z by blast
qed

lemma gyro_channel_names:
  assumes "wf_sheet df" and "first_match ''Time'' df = Inr tc"
  shows "map fst (filter (\<lambda>(c, g). c \<noteq> ''Time'') (rename tc ''Time'' df)) =
         filter (\<lambda>c. \<not> py_in ''Time'' c) (map fst df)"
proof -
  have "\<forall>c \<in> set df. (fst c \<noteq> tc) = (\<not> py_in ''Time'' (fst c)) \<and> (fst c \<noteq> tc \<longrightarrow> fst c \<noteq> ''Time'')"
    using time_column_iff[OF assms] gyro_channel_not_time[OF assms] by auto
  then show ?thesis
    unfolding rename_def by (induction df) (auto simp: py_in_self)
qed

text \<open>
  Claim C10, as stated, fails: a gyroscope channel that has the name of an
  accelerometer column is assigned over that column. Here the accelerometer column
  \<^verbatim>\<open>X\<close> holds 1, 2 before the merge and the gyroscope's 5, 6 after it.
\<close>

theorem merge_overwrites_shared_name:
  "merge_frames [(''Time (s)'', [0, 1]), (''X'', [1, 2])] [(''Time (s)'', [0, 1]), (''X'', [5, 6])]
     = Inr [(''Time'', [0, 1]), (''X'', [5, 6])]"
  by (simp add: merge_frames_def first_match_def rename_def getitem_def np_interp_def
      interp_point_def setitem_def)

text \<open>
  Claim C10, amended. When the two sheets share no column name other than that of the
  time column, a successful merge leaves the accelerometer frame as its first columns,
  in their order and value for value (the time column under the name \<^verbatim>\<open>Time\<close>), and
  the columns behind them are the gyroscope channels, in the gyroscope sheet's order.
\<close>

theorem merge_keeps_accelerometer_columns:
  assumes acc: "wf_sheet df_acc" and gyro: "wf_sheet df_gyro"
    and shared: "\<forall>c \<in> fst ` set df_gyro. c \<in> fst ` set df_acc \<longrightarrow> py_in ''Time'' c"
    and at: "first_match ''Time'' df_acc = Inr acc_t"
    and mf: "merge_frames df_acc df_gyro = Inr merged"
  shows "take (length df_acc) merged = rename acc_t ''Time'' df_acc \<and>
         map fst (drop (length df_acc) merged) = filter (\<lambda>c. \<not> py_in ''Time'' c) (map fst df_gyro) \<and>
         (\<forall>(c, v) \<in> set df_acc. getitem merged (if c = acc_t then ''Time'' else c) = Inr v)"
proof -
  from mf obtain acc_t' gyro_t acc_time gyro_time where
    at': "first_match ''Time'' df_acc = Inr acc_t'" and gt: "first_match ''Time'' df_gyro = Inr gyro_t"
    and ml: "merge_loop acc_time gyro_time (rename gyro_t ''Time'' df_gyro) (rename gyro_t ''Time'' df_gyro)
       (rename acc_t' ''Time'' df_acc) = Inr merged"
    by (rule getitem_merge_framesD)
  have [simp]: "acc_t' = acc_t" using at at' by simp
  let ?A = "rename acc_t ''Time'' df_acc" and ?G = "rename gyro_t ''Time'' df_gyro"
  have Gd: "distinct (map fst ?G)" by (rule rename_time_distinct[OF gyro gt])
  have Gl: "\<forall>(c, g) \<in> set ?G. map_of ?G c = Some g" by (rule distinct_lookup_all[OF Gd])
  have fresh: "\<forall>c \<in> fst ` set ?G. c \<noteq> ''Time'' \<longrightarrow> c \<notin> fst ` set ?A"
  proof (intro ballI impI)
    fix c assume c: "c \<in> fst ` set ?G" and nt: "c \<noteq> ''Time''"
    then obtain g where "(c, g) \<in> set ?G" by force
    then obtain c0 where c0: "(c0, g) \<in> set df_gyro" "c = (if c0 = gyro_t then ''Time'' else c0)"
      using rename_set_values by blast
    then have cg: "c \<in> fst ` set df_gyro" "c \<noteq> gyro_t" using nt by (force split: if_splits)+
    then have np: "\<not> py_in ''Time'' c" using time_column_iff[OF gyro gt] by simp
    show "c \<notin> fst ` set ?A"
    proof
      assume "c \<in> fst ` set ?A"
      then obtain v where "(c, v) \<in> set ?A" by force
      then obtain a0 where "(a0, v) \<in> set df_acc" "c = (if a0 = acc_t then ''Time'' else a0)"
        using rename_set_values by blast
      then have "c \<in> fst ` set df_acc" using nt by (force split: if_splits)
      then show False using shared cg(1) np by blast
    qed
  qed
  have m: "merged = ?A @ map (\<lambda>(c, g). (c, map (\<lambda>x. interp_point x gyro_time g) acc_time))
                    (filter (\<lambda>(c, g). c \<noteq> ''Time'') ?G)"
    using merge_loop_append[OF _ Gl Gd fresh] ml by simp
  have 1: "take (length df_acc) merged = ?A" by (subst m) (simp add: rename_length)
  have "map fst (drop (length df_acc) merged) = map fst (filter (\<lambda>(c, g). c \<noteq> ''Time'') ?G)"
    by (subst m) (simp add: rename_length comp_def case_prod_beta)
  then have 2: "map fst (drop (length df_acc) merged) = filter (\<lambda>c. \<not> py_in ''Time'' c) (map fst df_gyro)"
    by (simp only: gyro_channel_names[OF gyro gt])
  have 3: "\<forall>(c, v) \<in> set df_acc. getitem merged (if c = acc_t then ''Time'' else c) = Inr v"
  proof (clarify)
    fix c v assume "(c, v) \<in> set df_acc"
    from rename_time_lookup[OF acc at this]
    show "getitem merged (if c = acc_t then ''Time'' else c) = Inr v"
      by (subst m) (simp add: getitem_def)
  qed
  show ?thesis using 1 2 3 by blast
qed

theorem merge_keeps_accelerometer_columns_witness:
  "wf_sheet example_acc \<and> wf_sheet example_gyro \<and>
   filter (\<lambda>c. c \<in> fst ` set example_acc) (map fst example_gyro) = [''Time (s)''] \<and>
   py_in ''Time'' ''Time (s)'' \<and>
   first_match ''Time'' example_acc = Inr ''Time (s)'' \<and>
   merge_frames example_acc example_gyro = Inr example_merged \<and>
   take 4 example_merged = rename ''Time (s)'' ''Time'' example_acc \<and>
   map fst (drop 4 example_merged) = [''Gyroscope x'', ''Gyroscope y'', ''Gyroscope z''] \<and>
   getitem example_merged ''Acceleration y'' = Inr [0, 2, 0, 2]"
proof -
  have sh: "\<forall>c \<in> fst ` set example_gyro. c \<in> fst ` set example_acc \<longrightarrow> py_in ''Time'' c"
    by (simp add: example_acc_def example_gyro_def)
  note t = merge_keeps_accelerometer_columns[OF example_acc_wf example_gyro_wf sh example_acc_time example_merge]
  have l: "length example_acc = 4" by (simp add: example_acc_def)
  have 1: "take 4 example_merged = rename ''Time (s)'' ''Time'' example_acc" using t l by simp
  have "map fst (drop 4 example_merged) = filter (\<lambda>c. \<not> py_in ''Time'' c) (map fst example_gyro)"
    using t l by simp
  then have 2: "map fst (drop 4 example_merged) = [''Gyroscope x'', ''Gyroscope y'', ''Gyroscope z'']"
    by (simp add: example_gyro_def)
  have "(''Acceleration y'', [0, 2, 0, 2]) \<in> set example_acc" by (simp add: example_acc_def)
  then have 3: "getitem example_merged ''Acceleration y'' = Inr [0, 2, 0, 2]"
    using t by fastforce
  have 4: "filter (\<lambda>c. c \<in> fst ` set example_acc) (map fst example_gyro) = [''Time (s)'']"
    by (simp add: example_acc_def example_gyro_def)
  have 5: "py_in ''Time'' ''Time (s)''" by simp
  show ?thesis using example_acc_wf example_gyro_wf 4 5 example_acc_time example_merge 1 2 3 by blast
qed

section \<open>Integration\<close>

lemma length_diff: "length (diff x) = length x - 1"
  by (induction x rule: diff.induct) simp_all

lemma length_pair_sums: "length (pair_sums y) = length y - 1"
  by (induction y rule: pair_sums.induct) simp_all

lemma nth_diff: "Suc i < length x \<Longrightarrow> diff x ! i = x ! Suc i - x ! i"
proof (induction x arbitrary: i rule: diff.induct)
  case (1 a b xs)
  then show ?case by (cases i) simp_all
qed simp_all

lemma nth_pair_sums: "Suc i < length y \<Longrightarrow> pair_sums y ! i = y ! Suc i + y ! i"
proof (induction y arbitrary: i rule: pair_sums.induct)
  case (1 a b ys)
  then show ?case by (cases i) simp_all
qed simp_all

lemma length_cumsum_from: "length (cumsum_from acc xs) = length xs"
  by (induction xs arbitrary: acc) simp_all

lemma nth_cumsum_from:
  "i < length xs \<Longrightarrow> (acc # cumsum_from acc xs) ! Suc i = (acc # cumsum_from acc xs) ! i + xs ! i"
proof (induction xs arbitrary: acc i)
  case Nil
  then show ?case by simp
next
  case (Cons x xs)
  show ?case
  proof (cases i)
    case 0
    then show ?thesis by simp
  next
    case (Suc k)
    then have "k < length xs" using Cons.prems by simp
    from Cons.IH[OF this, of "acc + x"] show ?thesis using Suc by simp
  qed
qed

lemma cumulative_trapezoid_rule:
  assumes "length v = length t" and "v \<noteq> []"
  shows "\<exists>r. cumulative_trapezoid v t = Inr r \<and> trapezoid_rule t v r"
proof -
  let ?terms = "map (\<lambda>(d, s). d * s / 2) (zip (diff t) (pair_sums v))"
  let ?r = "0 # cumsum_from 0 ?terms"
  have lt: "length ?terms = length t - 1"
    using assms(1) by (simp add: length_diff length_pair_sums)
  have r: "cumulative_trapezoid v t = Inr ?r"
    using assms by (simp add: cumulative_trapezoid_def length_diff)
  have len: "length ?r = length t"
    using assms lt by (cases t) (simp_all add: length_cumsum_from)
  have step: "?r ! i = ?r ! (i - 1) + (v ! i + v ! (i - 1)) / 2 * (t ! i - t ! (i - 1))"
    if i: "1 \<le> i" "i < length t" for i
  proof -
    obtain k where k: "i = Suc k" using i(1) by (cases i) simp_all
    have kl: "k < length ?terms" using i(2) k lt by simp
    have kd: "k < length (diff t)" "k < length (pair_sums v)"
      using i(2) k assms(1) by (simp_all add: length_diff length_pair_sums)
    have "?terms ! k = (t ! Suc k - t ! k) * (v ! Suc k + v ! k) / 2"
      using kd i(2) k assms(1) by (simp add: nth_diff nth_pair_sums)
    moreover have "?r ! Suc k = ?r ! k + ?terms ! k"
      using kl by (rule nth_cumsum_from)
    ultimately show ?thesis using k by (simp add: algebra_simps)
  qed
  have "trapezoid_rule t v ?r"
    unfolding trapezoid_rule_def using len step by simp
  then show ?thesis using r by blast
qed

lemma wf_frame_column:
  assumes "wf_frame df t" and "first_match pat df = Inr col"
  shows "\<exists>v. getitem df col = Inr v \<and> length v = length t"
proof -
  obtain rest where "filter (py_in pat) (map fst df) = col # rest"
    using assms(2) by (auto simp: first_match_def split: list.splits)
  then have "col \<in> set (filter (py_in pat) (map fst df))" by simp
  then obtain v where v: "(col, v) \<in> set df" by auto
  have "map_of df col = Some v" using assms(1) v by (simp add: wf_frame_def)
  moreover have "length v = length t"
    using assms(1) v by (auto simp: wf_frame_def list_all_iff)
  ultimately show ?thesis by (simp add: getitem_def)
qed

lemma example_merged_wf: "wf_frame example_merged [0, 1, 2, 3]"
  by (simp add: wf_frame_def example_merged_def)

lemma example_merged_acc_y: "first_match ''Acceleration y'' example_merged = Inr ''Acceleration y''"
  by (simp add: first_match_def example_merged_def)

lemma example_merged_gyro_z: "first_match ''Gyroscope z'' example_merged = Inr ''Gyroscope z''"
  by (simp add: first_match_def example_merged_def)

lemma example_drift:
  "analyze_drift example_merged ''straight1'' example_bias =
     Inr \<lparr>drift_file = ''Output_Advanced/straight1_Drift_Compare.png'',
          drift_time = [0, 1, 2, 3], vel_raw = [0, 1, 2, 3], vel_corr = [0, 0, 0, 0]\<rparr>"
  unfolding analyze_drift_def
  by (simp add: example_merged_acc_y)
     (simp add: example_merged_def getitem_def cumulative_trapezoid_def example_bias_def
       bias_get_def path_join_def ADVANCED_OUTPUT_FOLDER_def)

lemma example_drift_zero_bias:
  "analyze_drift example_merged ''straight1'' Map.empty =
     Inr \<lparr>drift_file = ''Output_Advanced/straight1_Drift_Compare.png'',
          drift_time = [0, 1, 2, 3], vel_raw = [0, 1, 2, 3], vel_corr = [0, 1, 2, 3]\<rparr>"
  unfolding analyze_drift_def
  by (simp add: example_merged_acc_y)
     (simp add: example_merged_def getitem_def cumulative_trapezoid_def
       bias_get_def path_join_def ADVANCED_OUTPUT_FOLDER_def)

text \<open>
  Claim C5. For a merged frame with a non-empty time axis \<open>t\<close> whose columns are as
  long as \<open>t\<close>: when a column matches \<^verbatim>\<open>Acceleration y\<close>, the velocity analysis returns,
  and both its raw velocity (integral of the raw channel) and its corrected velocity
  (integral of the channel minus its bias) follow the cumulative trapezoidal rule over
  \<open>t\<close>: 0 at the first sample and
  \<open>integral[i] = integral[i-1] + (v[i] + v[i-1]) / 2 * (t[i] - t[i-1])\<close> from then on.
  When a column matches \<^verbatim>\<open>Gyroscope z\<close>, the heading analysis returns, and the angle it
  plots is the conversion to degrees of an integral of the bias-corrected channel that
  follows the same rule.
\<close>

theorem integrals_follow_trapezoid_rule:
  assumes wf: "wf_frame df t" and ne: "t \<noteq> []"
  shows "(\<forall>acc_col. first_match ''Acceleration y'' df = Inr acc_col \<longrightarrow>
            (\<exists>p acc_raw. analyze_drift df filename bias = Inr p \<and>
                 getitem df acc_col = Inr acc_raw \<and> drift_time p = t \<and>
                 trapezoid_rule t acc_raw (vel_raw p) \<and>
                 trapezoid_rule t (map (\<lambda>a. a - bias_get bias acc_col) acc_raw) (vel_corr p))) \<and>
         (\<forall>gyro_col. first_match ''Gyroscope z'' df = Inr gyro_col \<longrightarrow>
            (\<exists>h gyro_raw angle_rad. analyze_heading df filename bias = Inr h \<and>
                 getitem df gyro_col = Inr gyro_raw \<and> heading_time h = t \<and>
                 trapezoid_rule t (map (\<lambda>g. g - bias_get bias gyro_col) gyro_raw) angle_rad \<and>
                 angle_deg h = degrees angle_rad))"
proof (intro conjI allI impI)
  have time: "getitem df ''Time'' = Inr t" using wf by (simp add: wf_frame_def getitem_def)
  {
    fix acc_col assume c: "first_match ''Acceleration y'' df = Inr acc_col"
    from wf_frame_column[OF wf c] obtain acc_raw where
      raw: "getitem df acc_col = Inr acc_raw" and len: "length acc_raw = length t" by blast
    have rne: "acc_raw \<noteq> []" using len ne by auto
    let ?corr = "map (\<lambda>a. a - bias_get bias acc_col) acc_raw"
    obtain r1 where r1: "cumulative_trapezoid acc_raw t = Inr r1" "trapezoid_rule t acc_raw r1"
      using cumulative_trapezoid_rule[OF len rne] by blast
    obtain r2 where r2: "cumulative_trapezoid ?corr t = Inr r2" "trapezoid_rule t ?corr r2"
      using cumulative_trapezoid_rule[of ?corr t] len rne by auto
    have "analyze_drift df filename bias =
          Inr \<lparr>drift_file = path_join ADVANCED_OUTPUT_FOLDER (filename @ ''_Drift_Compare.png''),
               drift_time = t, vel_raw = r1, vel_corr = r2\<rparr>"
      unfolding analyze_drift_def by (simp only: c time raw r1 r2 sum.case Let_def)
    then show "\<exists>p acc_raw. analyze_drift df filename bias = Inr p \<and>
                 getitem df acc_col = Inr acc_raw \<and> drift_time p = t \<and>
                 trapezoid_rule t acc_raw (vel_raw p) \<and>
                 trapezoid_rule t (map (\<lambda>a. a - bias_get bias acc_col) acc_raw) (vel_corr p)"
      using raw r1(2) r2(2) by simp
  }
  {
    fix gyro_col assume c: "first_match ''Gyroscope z'' df = Inr gyro_col"
    from wf_frame_column[OF wf c] obtain gyro_raw where
      raw: "getitem df gyro_col = Inr gyro_raw" and len: "length gyro_raw = length t" by blast
    have rne: "gyro_raw \<noteq> []" using len ne by auto
    let ?corr = "map (\<lambda>g. g - bias_get bias gyro_col) gyro_raw"
    obtain r where r: "cumulative_trapezoid ?corr t = Inr r" "trapezoid_rule t ?corr r"
      using cumulative_trapezoid_rule[of ?corr t] len rne by auto
    have "analyze_heading df filename bias =
          Inr \<lparr>heading_file = path_join ADVANCED_OUTPUT_FOLDER (filename @ ''_Heading.png''),
               heading_time = t, angle_deg = degrees r\<rparr>"
      unfolding analyze_heading_def by (simp only: c time raw r sum.case Let_def)
    then show "\<exists>h gyro_raw angle_rad. analyze_heading df filename bias = Inr h \<and>
                 getitem df gyro_col = Inr gyro_raw \<and> heading_time h = t \<and>
                 trapezoid_rule t (map (\<lambda>g. g - bias_get bias gyro_col) gyro_raw) angle_rad \<and>
                 angle_deg h = degrees angle_rad"
      using raw r(2) by auto
  }
qed

theorem integrals_follow_trapezoid_rule_witness:
  "wf_frame example_merged [0, 1, 2, 3] \<and> [0, 1, 2, 3 :: real] \<noteq> [] \<and>
   first_match ''Acceleration y'' example_merged = Inr ''Acceleration y'' \<and>
   first_match ''Gyroscope z'' example_merged = Inr ''Gyroscope z'' \<and>
   trapezoid_rule [0, 1, 2, 3] [0, 2, 0, 2] [0, 1, 2, 3] \<and>
   trapezoid_rule [0, 1, 2, 3] [- 1, 1, - 1, 1] [0, 0, 0, 0] \<and>
   (\<exists>h angle_rad. analyze_heading example_merged ''lane1'' example_bias = Inr h \<and>
        heading_time h = [0, 1, 2, 3] \<and>
        trapezoid_rule [0, 1, 2, 3] [2, 3, 6, 8] angle_rad \<and> angle_deg h = degrees angle_rad)"
proof -
  have n: "[0, 1, 2, 3 :: real] \<noteq> []" by simp
  note t = integrals_follow_trapezoid_rule[OF example_merged_wf n]
  from t[of "''straight1''" example_bias] example_merged_acc_y
  obtain p acc_raw where p: "analyze_drift example_merged ''straight1'' example_bias = Inr p"
    "getitem example_merged ''Acceleration y'' = Inr acc_raw"
    "trapezoid_rule [0, 1, 2, 3] acc_raw (vel_raw p)"
    "trapezoid_rule [0, 1, 2, 3] (map (\<lambda>a. a - bias_get example_bias ''Acceleration y'') acc_raw) (vel_corr p)"
    by blast
  have a: "acc_raw = [0, 2, 0, 2]" using p(2) by (simp add: example_merged_def getitem_def)
  have v: "vel_raw p = [0, 1, 2, 3]" "vel_corr p = [0, 0, 0, 0]" using p(1) example_drift by auto
  have b: "map (\<lambda>a. a - bias_get example_bias ''Acceleration y'') [0, 2, 0, 2] = [- 1, 1, - 1, 1]"
    by (simp add: example_bias_def bias_get_def)
  have d1: "trapezoid_rule [0, 1, 2, 3] [0, 2, 0, 2] [0, 1, 2, 3]" using p(3) a v by simp
  have d2: "trapezoid_rule [0, 1, 2, 3] [- 1, 1, - 1, 1] [0, 0, 0, 0]" using p(4) a v b by simp
  from t[of "''lane1''" example_bias] example_merged_gyro_z
  obtain h gyro_raw angle_rad where h: "analyze_heading example_merged ''lane1'' example_bias = Inr h"
    "getitem example_merged ''Gyroscope z'' = Inr gyro_raw" "heading_time h = [0, 1, 2, 3]"
    "trapezoid_rule [0, 1, 2, 3] (map (\<lambda>g. g - bias_get example_bias ''Gyroscope z'') gyro_raw) angle_rad"
    "angle_deg h = degrees angle_rad"
    by blast
  have g: "gyro_raw = [2, 3, 6, 8]" using h(2) by (simp add: example_merged_def getitem_def)
  have "map (\<lambda>g. g - bias_get example_bias ''Gyroscope z'') [2, 3, 6, 8] = [2, 3, 6, 8]"
    by (simp add: example_bias_def bias_get_def)
  then have "trapezoid_rule [0, 1, 2, 3] [2, 3, 6, 8] angle_rad" using h(4) g by simp
  then show ?thesis
    using example_merged_wf n example_merged_acc_y example_merged_gyro_z d1 d2 h(1,3,5) by blast
qed

text \<open>
  Claim C6. When the bias table has no entry for the selected acceleration channel
  (in particular when it is empty) or its entry is 0, the corrected velocity that the
  drift analysis returns equals the raw velocity, at every sample.
\<close>

theorem zero_bias_correction_is_identity:
  assumes "analyze_drift df filename bias = Inr p"
    and "first_match ''Acceleration y'' df = Inr acc_col"
    and "bias acc_col = None \<or> bias acc_col = Some 0"
  shows "vel_corr p = vel_raw p"
proof -
  have z: "bias_get bias acc_col = 0" using assms(3) by (auto simp: bias_get_def)
  obtain time where t: "getitem df ''Time'' = Inr time"
    using assms(1) unfolding analyze_drift_def
    by (cases "getitem df ''Time''") (simp_all add: assms(2))
  obtain acc_raw where r: "getitem df acc_col = Inr acc_raw"
    using assms(1) unfolding analyze_drift_def
    by (cases "getitem df acc_col") (simp_all add: assms(2) t)
  obtain v where v: "cumulative_trapezoid acc_raw time = Inr v"
    using assms(1) unfolding analyze_drift_def
    by (cases "cumulative_trapezoid acc_raw time") (simp_all add: assms(2) t r)
  have "map (\<lambda>a. a - bias_get bias acc_col) acc_raw = acc_raw" by (simp add: z)
  then have "analyze_drift df filename bias =
     Inr \<lparr>drift_file = path_join ADVANCED_OUTPUT_FOLDER (filename @ ''_Drift_Compare.png''),
          drift_time = time, vel_raw = v, vel_corr = v\<rparr>"
    unfolding analyze_drift_def by (simp only: assms(2) t r v sum.case Let_def)
  then show ?thesis using assms(1) by auto
qed

theorem zero_bias_correction_is_identity_witness:
  "analyze_drift example_merged ''straight1'' Map.empty =
     Inr \<lparr>drift_file = ''Output_Advanced/straight1_Drift_Compare.png'',
          drift_time = [0, 1, 2, 3], vel_raw = [0, 1, 2, 3], vel_corr = [0, 1, 2, 3]\<rparr> \<and>
   first_match ''Acceleration y'' example_merged = Inr ''Acceleration y'' \<and>
   (Map.empty ''Acceleration y'' = (None :: real option) \<or> Map.empty ''Acceleration y'' = Some (0::real)) \<and>
   vel_corr \<lparr>drift_file = ''Output_Advanced/straight1_Drift_Compare.png'',
          drift_time = [0, 1, 2, 3], vel_raw = [0, 1, 2, 3], vel_corr = [0, 1, 2, 3]\<rparr>
   = vel_raw \<lparr>drift_file = ''Output_Advanced/straight1_Drift_Compare.png'',
          drift_time = [0, 1, 2, 3], vel_raw = [0, 1, 2, 3], vel_corr = [0, 1, 2, 3]\<rparr>"
proof -
  have e: "(Map.empty :: bias_table) ''Acceleration y'' = None \<or>
           (Map.empty :: bias_table) ''Acceleration y'' = Some 0" by simp
  from zero_bias_correction_is_identity[OF example_drift_zero_bias example_merged_acc_y e]
  show ?thesis using example_drift_zero_bias example_merged_acc_y by simp
qed

section \<open>Per-trial statistics\<close>

lemma pd_std_sample: "pd_std 1 v = sample_std v"
proof (cases "length v < 2")
  case True
  then show ?thesis by (auto simp: pd_std_def sample_std_def)
next
  case False
  then have "real (length v - 1) = real (length v) - 1" by (simp add: of_nat_diff)
  then show ?thesis using False by (simp add: pd_std_def sample_std_def)
qed

lemma process_and_plot_SomeD:
  assumes "process_and_plot ts df filename = (figs, Inr (Some stats))"
  shows "\<exists>df_trim. trim ts df = Inr df_trim \<and> \<not> frame_empty df_trim \<and>
           stats = calculate_stats df_trim filename"
  using assms unfolding process_and_plot_def Let_def
  by (auto simp del: plot_axes.simps split: sum.splits if_splits)

lemma mean_key_not_std: "a @ ''_Mean'' \<noteq> b @ ''_Std''"
proof
  assume "a @ ''_Mean'' = b @ ''_Std''"
  then have "last (a @ ''_Mean'') = last (b @ ''_Std'')" by simp
  then show False by simp
qed

lemma add_stats_other:
  assumes "k \<noteq> fst c @ ''_Mean''" and "k \<noteq> fst c @ ''_Std''"
  shows "map_of (add_stats c st) k = map_of st k"
  using assms by (simp add: add_stats_def update_conv')

lemma fold_add_stats_other:
  assumes "\<forall>c \<in> set cols. k \<noteq> fst c @ ''_Mean'' \<and> k \<noteq> fst c @ ''_Std''"
  shows "map_of (fold add_stats cols st) k = map_of st k"
  using assms by (induction cols arbitrary: st) (simp_all add: add_stats_other)

lemma fold_add_stats_std:
  assumes "distinct (map fst cols)" and "(c, v) \<in> set cols" and "c \<noteq> ''Time''"
  shows "map_of (fold add_stats cols st) (c @ ''_Std'') = Some (pd_std 1 v)"
  using assms
proof (induction cols arbitrary: st)
  case Nil
  then show ?case by simp
next
  case (Cons a cols)
  show ?case
  proof (cases "(c, v) \<in> set cols")
    case True
    then show ?thesis using Cons by simp
  next
    case False
    then have a: "a = (c, v)" using Cons.prems(2) by simp
    have "c \<notin> fst ` set cols" using Cons.prems(1) a by simp
    then have "\<forall>x \<in> set cols. c @ ''_Std'' \<noteq> fst x @ ''_Mean'' \<and> c @ ''_Std'' \<noteq> fst x @ ''_Std''"
      using mean_key_not_std[of _ c] by (metis append_same_eq imageI)
    then have "map_of (fold add_stats cols (add_stats a st)) (c @ ''_Std'') =
               map_of (add_stats a st) (c @ ''_Std'')"
      by (rule fold_add_stats_other)
    also have "\<dots> = Some (pd_std 1 v)"
      using a Cons.prems(3) by (simp add: add_stats_def update_conv')
    finally show ?thesis by simp
  qed
qed

lemma boolean_index_names: "map fst (boolean_index keep df) = map fst df"
  by (induction df) (auto simp: boolean_index_def)

lemma boolean_index_mem:
  "(c, v) \<in> set df \<Longrightarrow> (c, select_rows keep v) \<in> set (boolean_index keep df)"
  by (force simp: boolean_index_def)

lemma select_rows_length_cong:
  "length v = length w \<Longrightarrow> length (select_rows keep v) = length (select_rows keep w)"
  unfolding select_rows_def
proof (induction keep arbitrary: v w)
  case Nil
  then show ?case by simp
next
  case (Cons b keep)
  show ?case
  proof (cases v)
    case Nil
    then show ?thesis using Cons.prems by simp
  next
    case (Cons x v')
    then obtain y w' where w: "w = y # w'" using Cons.prems by (cases w) auto
    have "length v' = length w'" using Cons.prems \<open>v = x # v'\<close> w by simp
    from Cons.IH[OF this] show ?thesis using \<open>v = x # v'\<close> w by simp
  qed
qed

lemma one_row_trim:
  "trim 1 one_row_frame = Inr [(''Time'', [1]), (''Acceleration x'', [2]),
      (''Acceleration y'', [2]), (''Acceleration z'', [9]),
      (''Gyroscope x'', [2]), (''Gyroscope y'', [0]), (''Gyroscope z'', [3])]"
  by (simp add: one_row_frame_def trim_def getitem_def trim_mask_def Let_def round_double_small boolean_index_def select_rows_def)

lemma example_trim:
  "trim 1 example_merged = Inr [(''Time'', [1, 2]), (''Acceleration x'', [2, 3]),
      (''Acceleration y'', [2, 0]), (''Acceleration z'', [9, 9]),
      (''Gyroscope x'', [2, 4]), (''Gyroscope y'', [0, 0]), (''Gyroscope z'', [3, 6])]"
  by (simp add: example_merged_def trim_def getitem_def trim_mask_def Let_def round_double_small boolean_index_def select_rows_def)

lemma one_row_runs: "\<exists>figs stats. process_and_plot 1 one_row_frame ''bump1'' = (figs, Inr (Some stats))"
  unfolding process_and_plot_def one_row_trim
  by (simp add: frame_empty_def getitem_def first_match_def)

lemma example_runs: "\<exists>figs stats. process_and_plot 1 example_merged ''bump2'' = (figs, Inr (Some stats))"
  unfolding process_and_plot_def example_trim
  by (simp add: frame_empty_def getitem_def first_match_def)

lemma one_row_wf: "wf_frame one_row_frame [0, 1, 2]"
  by (simp add: wf_frame_def one_row_frame_def)

text \<open>
  Claim C9. When \<^verbatim>\<open>process_and_plot\<close> returns a statistics dictionary for a frame with
  pairwise different column names and columns as long as its time axis, the entry
  \<^verbatim>\<open>{channel}_Std\<close> of every column other than \<^verbatim>\<open>Time\<close> is the sample standard
  deviation (dividing by \<open>n - 1\<close>) of the column's trimmed values; when exactly one
  row is left after trimming, every such entry is NaN, not 0.
\<close>

theorem std_field_is_sample_std:
  assumes run: "process_and_plot trim_seconds df filename = (figs, Inr (Some stats))"
    and wf: "wf_frame df t"
  shows "(\<forall>(col, v) \<in> set df. col \<noteq> ''Time'' \<longrightarrow>
            map_of (entries stats) (col @ ''_Std'') =
              Some (sample_std (select_rows (trim_mask trim_seconds t) v))) \<and>
         (length (select_rows (trim_mask trim_seconds t) t) = 1 \<longrightarrow>
            (\<forall>(col, v) \<in> set df. col \<noteq> ''Time'' \<longrightarrow>
               map_of (entries stats) (col @ ''_Std'') = Some None))"
proof -
  let ?keep = "trim_mask trim_seconds t"
  from process_and_plot_SomeD[OF run] obtain df_trim where
    tr: "trim trim_seconds df = Inr df_trim" and st: "stats = calculate_stats df_trim filename"
    by blast
  have time: "getitem df ''Time'' = Inr t" using wf by (simp add: wf_frame_def getitem_def)
  have dt: "df_trim = boolean_index ?keep df" using tr time by (simp add: trim_def)
  have d: "distinct (map fst df_trim)"
    using wf by (simp add: dt boolean_index_names wf_frame_def)
  have main: "map_of (entries stats) (col @ ''_Std'') = Some (sample_std (select_rows ?keep v))"
    if "(col, v) \<in> set df" "col \<noteq> ''Time''" for col v
  proof -
    have "(col, select_rows ?keep v) \<in> set df_trim"
      using that(1) by (simp add: dt boolean_index_mem)
    from fold_add_stats_std[OF d this that(2), of "[]"] show ?thesis
      unfolding st calculate_stats_def pd_std_sample by simp
  qed
  have len: "length (select_rows ?keep v) = length (select_rows ?keep t)"
    if "(col, v) \<in> set df" for col v
  proof -
    have "length v = length t" using wf that by (auto simp: wf_frame_def list_all_iff)
    then show ?thesis by (rule select_rows_length_cong)
  qed
  have one: "map_of (entries stats) (col @ ''_Std'') = Some None"
    if "length (select_rows ?keep t) = 1" "(col, v) \<in> set df" "col \<noteq> ''Time''" for col v
    using main[OF that(2,3)] len[OF that(2)] that(1) by (simp add: sample_std_def)
  show ?thesis
  proof (intro conjI impI)
    show "\<forall>(col, v) \<in> set df. col \<noteq> ''Time'' \<longrightarrow>
            map_of (entries stats) (col @ ''_Std'') =
              Some (sample_std (select_rows (trim_mask trim_seconds t) v))"
    proof (clarify)
      fix col v assume "(col, v) \<in> set df" "col \<noteq> ''Time''"
      then show "map_of (entries stats) (col @ ''_Std'') =
              Some (sample_std (select_rows (trim_mask trim_seconds t) v))" by (rule main)
    qed
  next
    assume l: "length (select_rows (trim_mask trim_seconds t) t) = 1"
    show "\<forall>(col, v) \<in> set df. col \<noteq> ''Time'' \<longrightarrow>
               map_of (entries stats) (col @ ''_Std'') = Some None"
    proof (clarify)
      fix col v assume "(col, v) \<in> set df" "col \<noteq> ''Time''"
      then show "map_of (entries stats) (col @ ''_Std'') = Some None" by (rule one[OF l])
    qed
  qed
qed

theorem std_field_is_sample_std_witness:
  "(\<exists>figs stats. process_and_plot 1 one_row_frame ''bump1'' = (figs, Inr (Some stats)) \<and>
      map_of (entries stats) ''Acceleration y_Std'' = Some None) \<and>
   wf_frame one_row_frame [0, 1, 2] \<and>
   length (select_rows (trim_mask 1 [0, 1, 2]) [0, 1, 2]) = 1 \<and>
   (\<exists>figs stats. process_and_plot 1 example_merged ''bump2'' = (figs, Inr (Some stats)) \<and>
      map_of (entries stats) ''Acceleration y_Std'' = Some (Some (sqrt 2))) \<and>
   wf_frame example_merged [0, 1, 2, 3]"
proof -
  obtain figs stats where r1: "process_and_plot 1 one_row_frame ''bump1'' = (figs, Inr (Some stats))"
    using one_row_runs by blast
  have l: "length (select_rows (trim_mask 1 [0, 1, 2]) [0, 1, 2]) = 1"
    by (simp add: trim_mask_def Let_def round_double_small select_rows_def)
  have m1: "(''Acceleration y'', [0, 2, 0]) \<in> set one_row_frame" by (simp add: one_row_frame_def)
  have "map_of (entries stats) (''Acceleration y'' @ ''_Std'') = Some None"
    using std_field_is_sample_std[OF r1 one_row_wf] l m1 by fastforce
  then have a: "map_of (entries stats) ''Acceleration y_Std'' = Some None" by simp
  obtain figs2 stats2 where r2: "process_and_plot 1 example_merged ''bump2'' = (figs2, Inr (Some stats2))"
    using example_runs by blast
  have m2: "(''Acceleration y'', [0, 2, 0, 2]) \<in> set example_merged" by (simp add: example_merged_def)
  have "map_of (entries stats2) (''Acceleration y'' @ ''_Std'') =
        Some (sample_std (select_rows (trim_mask 1 [0, 1, 2, 3]) [0, 2, 0, 2]))"
    using std_field_is_sample_std[OF r2 example_merged_wf] m2 by fastforce
  moreover have "sample_std (select_rows (trim_mask 1 [0, 1, 2, 3]) [0, 2, 0, 2]) = Some (sqrt 2)"
    by (simp add: trim_mask_def Let_def round_double_small select_rows_def sample_std_def)
  ultimately have b: "map_of (entries stats2) ''Acceleration y_Std'' = Some (Some (sqrt 2))" by simp
  show ?thesis using r1 a one_row_wf l r2 b example_merged_wf by blast
qed

section \<open>The loops over the files\<close>

lemma emit_Nil: "emit [] r = r"
  by (simp add: emit_def)

lemma emit_emit: "emit xs (emit ys r) = emit (xs @ ys) r"
  by (simp add: emit_def)





lemma names: "lower (splitext_root ''straight1.xlsx'') = ''straight1''"
  "splitext_root ''bump1.xlsx'' = ''bump1''"
  by (simp_all add: lower_def lower_char_def splitext_root_def)

lemma lower_upper: "lower (splitext_root ''Straight2.XLSX'') = ''straight2''"
  by code_simp

lemma routes: "\<not> py_in ''stationary'' ''straight1''" "py_in ''straight'' ''straight1''"
  by simp_all



lemma short_load: "advanced_load_phyphox_xls 1 p short_workbook =
    ([], Some [(''Time'', []), (''Acceleration x'', []),
      (''Acceleration y'', []), (''Acceleration z'', []),
      (''Gyroscope x'', []), (''Gyroscope y'', []), (''Gyroscope z'', [])])"
  by (simp add: advanced_load_phyphox_xls_def short_workbook_def read_and_merge_def read_excel_def
      merge_frames_def first_match_def rename_def getitem_def np_interp_def interp_point_def setitem_def
      trim_def trim_mask_def Let_def round_double_small boolean_index_def select_rows_def)










lemma roots: "splitext_root ''straight1.xlsx'' = ''straight1''"
  "splitext_root ''straight2.xlsx'' = ''straight2''"
  "splitext_root ''broken.xlsx'' = ''broken''"
  "splitext_root ''short_straight.xlsx'' = ''short_straight''"
  "splitext_root ''bump1.xlsx'' = ''bump1''"
  by (simp_all add: splitext_root_def)

lemma lowers: "lower ''straight1'' = ''straight1''" "lower ''straight2'' = ''straight2''"
  "lower ''broken'' = ''broken''" "lower ''short_straight'' = ''short_straight''"
  by (simp_all add: lower_def lower_char_def)


lemma short_read: "read_and_merge short_workbook = Inr short_merged"
  by (simp add: short_workbook_def short_merged_def read_and_merge_def read_excel_def
      merge_frames_def first_match_def rename_def getitem_def np_interp_def interp_point_def setitem_def)















lemma file_names:
  "lower ''straight1.xlsx'' = ''straight1.xlsx''" "lower ''straight2.xlsx'' = ''straight2.xlsx''"
  "lower ''broken.xlsx'' = ''broken.xlsx''" "lower ''short_straight.xlsx'' = ''short_straight.xlsx''"
  "lower ''stationary.xlsx'' = ''stationary.xlsx''" "lower ''stationary'' = ''stationary''"
  "splitext_root ''stationary.xlsx'' = ''stationary''"
  by (simp_all add: lower_def lower_char_def splitext_root_def)

lemma excel_names:
  "is_excel ''straight1.xlsx''" "is_excel ''straight2.xlsx''" "is_excel ''broken.xlsx''"
  "is_excel ''short_straight.xlsx''" "is_excel ''stationary.xlsx''"
  by (simp_all add: is_excel_def endswith_def)

lemma no_stationary_file:
  "get_calibration_bias ts [(''straight1.xlsx'', a), (''straight2.xlsx'', b)] = ([CalibrationWarning], Inr [])"
  "get_calibration_bias ts [(''straight2.xlsx'', b)] = ([CalibrationWarning], Inr [])"
  "get_calibration_bias ts [(''short_straight.xlsx'', a), (''straight2.xlsx'', b)] = ([CalibrationWarning], Inr [])"
  by (simp_all add: get_calibration_bias_def file_names)

lemma empty_calibration: "numeric_bias [] = Some Map.empty"
  by (simp add: numeric_bias_def)







text \<open>
  The calibration reads the loader's result unchecked. When the stationary file cannot
  be loaded, the loader prints its error and returns \<^verbatim>\<open>None\<close>, and the calibration
  raises \<^verbatim>\<open>AttributeError\<close> on \<^verbatim>\<open>df.columns\<close>: the run ends before the loop over the
  trials, which guards the same call with \<^verbatim>\<open>if df is None\<close>.
\<close>

lemma unloadable_calibration_file_ends_run:
  "advanced_main [(''stationary.xlsx'', None), (''straight1.xlsx'', example_workbook)] =
     Some ([Printed (CalibratingWith ''stationary.xlsx''),
            Printed (ErrorLoading ''Datasets/stationary.xlsx'' FileError)], Some AttributeError)"
  by (simp add: advanced_main_def get_calibration_bias_def file_names excel_names
      advanced_load_phyphox_xls_def read_and_merge_def read_excel_def path_join_def DATA_FOLDER_def)




text \<open>
  Claim C2 at a recording of one second, which trimming empties. The basic script
  answers it as the claim says: \<^verbatim>\<open>process_and_plot\<close> returns \<^verbatim>\<open>None\<close> and saves
  nothing. The advanced script's loader returns the empty frame, not \<^verbatim>\<open>None\<close>; its
  caller does not skip the trial, and the integration of the empty frame raises
  \<^verbatim>\<open>ValueError\<close>, which ends the run.
\<close>

theorem advanced_loader_returns_empty_frame:
  "advanced_load_phyphox_xls TRIM_SECONDS (path_join DATA_FOLDER ''short_straight.xlsx'') short_workbook =
     ([], Some [(''Time'', []), (''Acceleration x'', []), (''Acceleration y'', []),
                (''Acceleration z'', []), (''Gyroscope x'', []), (''Gyroscope y'', []),
                (''Gyroscope z'', [])]) \<and>
   advanced_main [(''short_straight.xlsx'', short_workbook), (''straight2.xlsx'', example_workbook)] =
     Some ([Printed CalibrationWarning], Some ValueError) \<and>
   basic_load_phyphox_xls (path_join DATA_FOLDER ''short_straight.xlsx'') short_workbook =
     ([], Some short_merged) \<and>
   process_and_plot TRIM_SECONDS short_merged ''short_straight'' = ([], Inr None)"
proof -
  have 1: "advanced_load_phyphox_xls TRIM_SECONDS (path_join DATA_FOLDER ''short_straight.xlsx'') short_workbook =
     ([], Some [(''Time'', []), (''Acceleration x'', []), (''Acceleration y'', []),
                (''Acceleration z'', []), (''Gyroscope x'', []), (''Gyroscope y'', []),
                (''Gyroscope z'', [])])"
    by (simp add: TRIM_SECONDS_def short_load)
  have p: "process_files Map.empty 1
      [(''short_straight.xlsx'', short_workbook), (''straight2.xlsx'', example_workbook)] = ([], Some ValueError)"
    by (simp add: roots lowers Let_def short_load
        analyze_drift_def first_match_def getitem_def cumulative_trapezoid_def)
  have 2: "advanced_main [(''short_straight.xlsx'', short_workbook), (''straight2.xlsx'', example_workbook)] =
     Some ([Printed CalibrationWarning], Some ValueError)"
    unfolding advanced_main_def no_stationary_file
    by (simp add: empty_calibration excel_names TRIM_SECONDS_def p emit_def del: process_files.simps)
  have 3: "basic_load_phyphox_xls (path_join DATA_FOLDER ''short_straight.xlsx'') short_workbook =
     ([], Some short_merged)"
    by (simp add: basic_load_phyphox_xls_def short_read)
  have 4: "process_and_plot TRIM_SECONDS short_merged ''short_straight'' = ([], Inr None)"
    by (simp add: TRIM_SECONDS_def short_merged_def process_and_plot_def
        trim_def trim_mask_def Let_def round_double_small boolean_index_def select_rows_def getitem_def frame_empty_def)
  show ?thesis using 1 2 3 4 by simp
qed

section \<open>The report\<close>

lemma DataFrame_rows:
  "report_rows (DataFrame stats_list) = map (raw_row (report_columns (DataFrame stats_list))) stats_list"
  by (simp add: DataFrame_def Let_def raw_row_def)

lemma group_means_rows:
  "group_means (DataFrame stats_list) =
     map (average_row (report_columns (DataFrame stats_list)) stats_list) (group_keys stats_list)"
proof -
  let ?df = "DataFrame stats_list"
  let ?cols = "report_columns ?df"
  have keys: "map (\<lambda>r. group_key (fst r)) (report_rows ?df) = map (\<lambda>s. group_key (Filename s)) stats_list"
    by (simp add: DataFrame_rows raw_row_def comp_def)
  have members: "filter (\<lambda>r. group_key (fst r) = g) (report_rows ?df) =
        map (raw_row ?cols) (filter (\<lambda>s. group_key (Filename s) = g) stats_list)" for g
    by (simp add: DataFrame_rows filter_map comp_def raw_row_def)
  have cells: "map (\<lambda>j. nan_mean (map (\<lambda>r. snd r ! j) (filter (\<lambda>r. group_key (fst r) = g) (report_rows ?df))))
                  [0..<length ?cols] =
               map (\<lambda>c. nan_mean (map (\<lambda>s. cell s c) (filter (\<lambda>s. group_key (Filename s) = g) stats_list))) ?cols" for g
  proof (rule nth_equalityI)
    show "length (map (\<lambda>j. nan_mean (map (\<lambda>r. snd r ! j) (filter (\<lambda>r. group_key (fst r) = g) (report_rows ?df))))
                  [0..<length ?cols]) =
          length (map (\<lambda>c. nan_mean (map (\<lambda>s. cell s c) (filter (\<lambda>s. group_key (Filename s) = g) stats_list))) ?cols)"
      by simp
  next
    fix j assume "j < length (map (\<lambda>j. nan_mean (map (\<lambda>r. snd r ! j) (filter (\<lambda>r. group_key (fst r) = g) (report_rows ?df))))
                  [0..<length ?cols])"
    then have j: "j < length ?cols" by simp
    then show "map (\<lambda>j. nan_mean (map (\<lambda>r. snd r ! j) (filter (\<lambda>r. group_key (fst r) = g) (report_rows ?df))))
                  [0..<length ?cols] ! j =
          map (\<lambda>c. nan_mean (map (\<lambda>s. cell s c) (filter (\<lambda>s. group_key (Filename s) = g) stats_list))) ?cols ! j"
      by (simp add: members raw_row_def comp_def)
  qed
  show ?thesis
    unfolding group_means_def Let_def keys group_keys_def average_row_def cells by simp
qed

lemma save_formatted_excel_rows:
  assumes "stats_list \<noteq> []"
  shows "save_formatted_excel stats_list =
           Some \<lparr>report_columns = report_columns (DataFrame stats_list),
                 report_rows = map (raw_row (report_columns (DataFrame stats_list))) stats_list @
                   map (average_row (report_columns (DataFrame stats_list)) stats_list) (group_keys stats_list)\<rparr>"
  using assms by (simp add: save_formatted_excel_def Let_def group_means_rows DataFrame_rows[symmetric])

lemma group_keys_sorted: "sorted (group_keys stats_list)" "distinct (group_keys stats_list)"
  "set (group_keys stats_list) = set (map (\<lambda>s. group_key (Filename s)) stats_list)"
  by (simp_all add: group_keys_def)

lemma group_key_examples: "group_key ''zeta1'' = ''zeta''" "group_key ''alpha1'' = ''alpha''"
  "group_key ''bump1'' = ''bump''" "group_key ''bump2'' = ''bump''" "group_key ''solo'' = ''solo''"
  "group_key ''bump12'' = ''bump''" "group_key ''12'' = ''Other''"
  by (simp_all add: group_key_def is_alpha_def)

lemma zeta_alpha_report:
  "save_formatted_excel zeta_alpha_stats =
     Some \<lparr>report_columns = [''a_Mean'', ''a_Std''],
           report_rows = [(''zeta1'', [Some 2, Some 1]), (''alpha1'', [Some 4, Some 1]),
                          (''alpha_avg'', [Some 4, Some 1]), (''zeta_avg'', [Some 2, Some 1])]\<rparr>"
  by (simp add: save_formatted_excel_def zeta_alpha_stats_def DataFrame_def first_seen_def cell_def
      group_means_def group_key_examples nan_mean_def pd_mean_def Let_def)

lemma bump_solo_report:
  "save_formatted_excel bump_solo_stats =
     Some \<lparr>report_columns = [''a_Mean'', ''a_Std''],
           report_rows = [(''bump1'', [Some 2, None]), (''bump2'', [Some 4, Some 1]),
                          (''solo'', [Some 5, Some 3]),
                          (''bump_avg'', [Some 3, Some 1]), (''solo_avg'', [Some 5, Some 3])]\<rparr>"
  by (simp add: save_formatted_excel_def bump_solo_stats_def DataFrame_def first_seen_def cell_def
      group_means_def group_key_examples nan_mean_def pd_mean_def Let_def)

lemma nan_mean_all_numbers:
  assumes "cells \<noteq> []" and "None \<notin> set cells"
  shows "nan_mean cells = Some (sum_list (map the cells) / real (length cells))"
proof -
  have "\<forall>c \<in> set cells. c \<noteq> None" using assms(2) by metis
  then have "filter (\<lambda>c. c \<noteq> None) cells = cells" by (rule filter_True)
  then show ?thesis using assms(1) by (simp add: nan_mean_def pd_mean_def)
qed

lemma nan_mean_single: "nan_mean [x] = x"
  by (cases x) (simp_all add: nan_mean_def pd_mean_def)

lemma takeWhile_maximal:
  "\<exists>rest. name = takeWhile P name @ rest \<and> list_all P (takeWhile P name) \<and>
          (case rest of [] \<Rightarrow> True | c # _ \<Rightarrow> \<not> P c)"
proof -
  have 1: "name = takeWhile P name @ dropWhile P name" by simp
  have 2: "list_all P (takeWhile P name)" by (induction name) simp_all
  have 3: "case dropWhile P name of [] \<Rightarrow> True | c # _ \<Rightarrow> \<not> P c"
    by (induction name) simp_all
  show ?thesis using 1 2 3 by (intro exI[of _ "dropWhile P name"]) simp
qed

lemma bump_solo_saved: "save_formatted_excel bump_solo_stats = Some bump_solo_report_frame"
  using bump_solo_report by (simp add: bump_solo_report_frame_def)

text \<open>
  Claim C3, as stated, fails: the group-average rows come in the sorted order of the
  group keys, not in the order in which the groups first appear. For the trials
  \<^verbatim>\<open>zeta1\<close>, \<^verbatim>\<open>alpha1\<close> the groups first appear as zeta, alpha, and the average rows
  are \<^verbatim>\<open>alpha_avg\<close>, \<^verbatim>\<open>zeta_avg\<close>.
\<close>

theorem groups_sorted_not_first_seen:
  "save_formatted_excel zeta_alpha_stats =
     Some \<lparr>report_columns = [''a_Mean'', ''a_Std''],
           report_rows = [(''zeta1'', [Some 2, Some 1]), (''alpha1'', [Some 4, Some 1]),
                          (''alpha_avg'', [Some 4, Some 1]), (''zeta_avg'', [Some 2, Some 1])]\<rparr> \<and>
   map Filename zeta_alpha_stats = [''zeta1'', ''alpha1''] \<and>
   first_seen (map group_key [''zeta1'', ''alpha1'']) = [''zeta'', ''alpha'']"
  using zeta_alpha_report by (simp add: zeta_alpha_stats_def group_key_examples first_seen_def)

text \<open>
  Claim C3, amended. For every non-empty list of per-trial statistics the report is
  written; its first rows are the per-trial rows, in the order the trials were
  processed; the rows behind them are the group-average rows, one for each group, in
  ascending order of the group keys (strings compared character by character).
\<close>

theorem report_rows_order:
  assumes "stats_list \<noteq> []"
  shows "\<exists>rep keys. save_formatted_excel stats_list = Some rep \<and>
           take (length stats_list) (report_rows rep) =
             map (\<lambda>s. (Filename s, map (cell s) (report_columns rep))) stats_list \<and>
           map fst (drop (length stats_list) (report_rows rep)) = map (\<lambda>g. g @ ''_avg'') keys \<and>
           sorted keys \<and> distinct keys \<and>
           set keys = set (map (\<lambda>s. group_key (Filename s)) stats_list)"
proof -
  let ?cols = "report_columns (DataFrame stats_list)"
  let ?rep = "\<lparr>report_columns = ?cols,
                 report_rows = map (raw_row ?cols) stats_list @
                   map (average_row ?cols stats_list) (group_keys stats_list)\<rparr>"
  have "save_formatted_excel stats_list = Some ?rep"
    by (rule save_formatted_excel_rows[OF assms])
  moreover have "take (length stats_list) (report_rows ?rep) =
             map (\<lambda>s. (Filename s, map (cell s) (report_columns ?rep))) stats_list"
    by (simp add: raw_row_def)
  moreover have "map fst (drop (length stats_list) (report_rows ?rep)) =
                 map (\<lambda>g. g @ ''_avg'') (group_keys stats_list)"
    by (simp add: average_row_def comp_def)
  ultimately show ?thesis using group_keys_sorted[of stats_list] by blast
qed

theorem report_rows_order_witness:
  "bump_solo_stats \<noteq> [] \<and>
   save_formatted_excel bump_solo_stats =
     Some \<lparr>report_columns = [''a_Mean'', ''a_Std''],
           report_rows = [(''bump1'', [Some 2, None]), (''bump2'', [Some 4, Some 1]),
                          (''solo'', [Some 5, Some 3]),
                          (''bump_avg'', [Some 3, Some 1]), (''solo_avg'', [Some 5, Some 3])]\<rparr> \<and>
   (\<exists>keys. [''bump_avg'', ''solo_avg''] = map (\<lambda>g. g @ ''_avg'') keys \<and> sorted keys \<and> distinct keys \<and>
      set keys = {''bump'', ''solo''})"
proof -
  have n: "bump_solo_stats \<noteq> []" by (simp add: bump_solo_stats_def)
  from report_rows_order[OF n] obtain rep keys where
    r: "save_formatted_excel bump_solo_stats = Some rep"
    and k: "map fst (drop (length bump_solo_stats) (report_rows rep)) = map (\<lambda>g. g @ ''_avg'') keys"
      "sorted keys" "distinct keys"
      "set keys = set (map (\<lambda>s. group_key (Filename s)) bump_solo_stats)"
    by blast
  have rep: "rep = \<lparr>report_columns = [''a_Mean'', ''a_Std''],
           report_rows = [(''bump1'', [Some 2, None]), (''bump2'', [Some 4, Some 1]),
                          (''solo'', [Some 5, Some 3]),
                          (''bump_avg'', [Some 3, Some 1]), (''solo_avg'', [Some 5, Some 3])]\<rparr>"
    using r bump_solo_report by simp
  have 1: "[''bump_avg'', ''solo_avg''] = map (\<lambda>g. g @ ''_avg'') keys"
    using k(1) unfolding rep by (simp add: bump_solo_stats_def)
  have 2: "set keys = {''bump'', ''solo''}"
    using k(4) by (simp add: bump_solo_stats_def group_key_examples)
  have "\<exists>keys. [''bump_avg'', ''solo_avg''] = map (\<lambda>g. g @ ''_avg'') keys \<and> sorted keys \<and> distinct keys \<and>
      set keys = {''bump'', ''solo''}"
    using 1 2 k(2,3) by (intro exI[of _ keys]) simp
  then show ?thesis using n bump_solo_report by simp
qed

text \<open>
  Claim C8, as stated, fails where a member's field is NaN: the group mean of pandas
  skips that member. The trial \<^verbatim>\<open>bump1\<close> has the standard deviation NaN and
  \<^verbatim>\<open>bump2\<close> has 1; the row \<^verbatim>\<open>bump_avg\<close> holds 1, while the arithmetic mean across the
  two members is NaN.
\<close>

theorem group_average_skips_nan:
  "save_formatted_excel bump_solo_stats =
     Some \<lparr>report_columns = [''a_Mean'', ''a_Std''],
           report_rows = [(''bump1'', [Some 2, None]), (''bump2'', [Some 4, Some 1]),
                          (''solo'', [Some 5, Some 3]),
                          (''bump_avg'', [Some 3, Some 1]), (''solo_avg'', [Some 5, Some 3])]\<rparr> \<and>
   arithmetic_mean [None, Some 1] = None"
  using bump_solo_report by (simp add: arithmetic_mean_def)

text \<open>
  Claim C8, amended. The group key of a trial name is its longest leading run of
  letters \<^verbatim>\<open>a-z\<close>, \<^verbatim>\<open>A-Z\<close>, and \<^verbatim>\<open>Other\<close> when the name starts with none. For every
  group the report has a row \<^verbatim>\<open>{group}_avg\<close> among the average rows whose field in each
  column is the arithmetic mean over those members whose field is a number (NaN when
  there is none); when all members have a number it is the arithmetic mean across the
  group's members, and a group of one member has that member's fields.
\<close>

theorem group_average_is_mean_of_numbers:
  assumes rep: "save_formatted_excel stats_list = Some rep"
    and g: "g \<in> set (map (\<lambda>s. group_key (Filename s)) stats_list)"
  shows "(\<exists>rest. name = takeWhile is_alpha name @ rest \<and> list_all is_alpha (takeWhile is_alpha name) \<and>
            (case rest of [] \<Rightarrow> True | c # _ \<Rightarrow> \<not> is_alpha c) \<and>
            group_key name = (if takeWhile is_alpha name = [] then ''Other'' else takeWhile is_alpha name)) \<and>
         (\<exists>cells. (g @ ''_avg'', cells) \<in> set (drop (length stats_list) (report_rows rep)) \<and>
            length cells = length (report_columns rep) \<and>
            (\<forall>j < length (report_columns rep).
               cells ! j = nan_mean (map (\<lambda>s. cell s (report_columns rep ! j))
                                      (filter (\<lambda>s. group_key (Filename s) = g) stats_list)) \<and>
               (None \<notin> set (map (\<lambda>s. cell s (report_columns rep ! j))
                                 (filter (\<lambda>s. group_key (Filename s) = g) stats_list)) \<longrightarrow>
                cells ! j = arithmetic_mean (map (\<lambda>s. cell s (report_columns rep ! j))
                                      (filter (\<lambda>s. group_key (Filename s) = g) stats_list)))) \<and>
            (\<forall>s. filter (\<lambda>s. group_key (Filename s) = g) stats_list = [s] \<longrightarrow>
                 cells = map (cell s) (report_columns rep)))"
proof -
  let ?cols = "report_columns (DataFrame stats_list)"
  let ?members = "filter (\<lambda>s. group_key (Filename s) = g) stats_list"
  have ne: "stats_list \<noteq> []" using g by auto
  have r: "rep = \<lparr>report_columns = ?cols,
                 report_rows = map (raw_row ?cols) stats_list @
                   map (average_row ?cols stats_list) (group_keys stats_list)\<rparr>"
    using rep save_formatted_excel_rows[OF ne] by simp
  have cols: "report_columns rep = ?cols" by (simp add: r)
  have dropped: "drop (length stats_list) (report_rows rep) =
                 map (average_row ?cols stats_list) (group_keys stats_list)"
    by (simp add: r)
  let ?cells = "snd (average_row ?cols stats_list g)"
  have gk: "g \<in> set (group_keys stats_list)" using g by (simp add: group_keys_sorted(3))
  then have mem: "(g @ ''_avg'', ?cells) \<in> set (drop (length stats_list) (report_rows rep))"
    unfolding dropped by (auto simp: average_row_def)
  have len: "length ?cells = length (report_columns rep)" by (simp add: average_row_def cols)
  have mne: "?members \<noteq> []"
  proof -
    obtain s where "s \<in> set stats_list" "group_key (Filename s) = g" using g by auto
    then have "s \<in> set ?members" by simp
    then show ?thesis by (metis empty_iff empty_set)
  qed
  have cellj: "?cells ! j = nan_mean (map (\<lambda>s. cell s (report_columns rep ! j)) ?members)"
    if "j < length (report_columns rep)" for j
    using that by (simp add: average_row_def cols)
  have allnum: "?cells ! j = arithmetic_mean (map (\<lambda>s. cell s (report_columns rep ! j)) ?members)"
    if "j < length (report_columns rep)"
      and "None \<notin> set (map (\<lambda>s. cell s (report_columns rep ! j)) ?members)" for j
  proof -
    have "map (\<lambda>s. cell s (report_columns rep ! j)) ?members \<noteq> []" using mne by simp
    from nan_mean_all_numbers[OF this that(2)] show ?thesis
      using cellj[OF that(1)] that(2) mne by (simp add: arithmetic_mean_def)
  qed
  have single: "?cells = map (cell s) (report_columns rep)" if "?members = [s]" for s
    by (simp add: average_row_def cols that nan_mean_single)
  have key: "\<exists>rest. name = takeWhile is_alpha name @ rest \<and> list_all is_alpha (takeWhile is_alpha name) \<and>
            (case rest of [] \<Rightarrow> True | c # _ \<Rightarrow> \<not> is_alpha c) \<and>
            group_key name = (if takeWhile is_alpha name = [] then ''Other'' else takeWhile is_alpha name)"
  proof -
    have "group_key name = (if takeWhile is_alpha name = [] then ''Other'' else takeWhile is_alpha name)"
      by (simp add: group_key_def split: list.splits)
    moreover obtain rest where "name = takeWhile is_alpha name @ rest"
      "list_all is_alpha (takeWhile is_alpha name)" "case rest of [] \<Rightarrow> True | c # _ \<Rightarrow> \<not> is_alpha c"
      using takeWhile_maximal[of name is_alpha] by blast
    ultimately show ?thesis by (intro exI[of _ rest]) simp
  qed
  have "(g @ ''_avg'', ?cells) \<in> set (drop (length stats_list) (report_rows rep)) \<and>
            length ?cells = length (report_columns rep) \<and>
            (\<forall>j < length (report_columns rep).
               ?cells ! j = nan_mean (map (\<lambda>s. cell s (report_columns rep ! j)) ?members) \<and>
               (None \<notin> set (map (\<lambda>s. cell s (report_columns rep ! j)) ?members) \<longrightarrow>
                ?cells ! j = arithmetic_mean (map (\<lambda>s. cell s (report_columns rep ! j)) ?members))) \<and>
            (\<forall>s. ?members = [s] \<longrightarrow> ?cells = map (cell s) (report_columns rep))"
    using mem len cellj allnum single by simp
  then have "\<exists>cells. (g @ ''_avg'', cells) \<in> set (drop (length stats_list) (report_rows rep)) \<and>
            length cells = length (report_columns rep) \<and>
            (\<forall>j < length (report_columns rep).
               cells ! j = nan_mean (map (\<lambda>s. cell s (report_columns rep ! j)) ?members) \<and>
               (None \<notin> set (map (\<lambda>s. cell s (report_columns rep ! j)) ?members) \<longrightarrow>
                cells ! j = arithmetic_mean (map (\<lambda>s. cell s (report_columns rep ! j)) ?members))) \<and>
            (\<forall>s. ?members = [s] \<longrightarrow> cells = map (cell s) (report_columns rep))"
    by (rule exI[of _ ?cells])
  then show ?thesis using key by (rule conjI[rotated])
qed

theorem group_average_is_mean_of_numbers_witness:
  "save_formatted_excel bump_solo_stats = Some bump_solo_report_frame \<and>
   ''bump'' \<in> set (map (\<lambda>s. group_key (Filename s)) bump_solo_stats) \<and>
   ''solo'' \<in> set (map (\<lambda>s. group_key (Filename s)) bump_solo_stats) \<and>
   group_key ''bump12'' = ''bump'' \<and> group_key ''12'' = ''Other'' \<and>
   (''bump_avg'', [Some 3, Some 1]) \<in> set (drop 3 (report_rows bump_solo_report_frame)) \<and>
   arithmetic_mean [Some 2, Some 4] = Some 3 \<and>
   nan_mean [None, Some 1] = Some 1 \<and>
   (''solo_avg'', [Some 5, Some 3]) \<in> set (drop 3 (report_rows bump_solo_report_frame)) \<and>
   filter (\<lambda>s. group_key (Filename s) = ''solo'') bump_solo_stats =
     [\<lparr>Filename = ''solo'', entries = [(''a_Mean'', Some 5), (''a_Std'', Some 3)]\<rparr>]"
proof -
  have gb: "''bump'' \<in> set (map (\<lambda>s. group_key (Filename s)) bump_solo_stats)"
    by (simp add: bump_solo_stats_def group_key_examples)
  have gs: "''solo'' \<in> set (map (\<lambda>s. group_key (Filename s)) bump_solo_stats)"
    by (simp add: bump_solo_stats_def group_key_examples)
  have l: "length bump_solo_stats = 3" by (simp add: bump_solo_stats_def)
  have cols: "report_columns bump_solo_report_frame = [''a_Mean'', ''a_Std'']"
    by (simp add: bump_solo_report_frame_def)
  have rows: "drop 3 (report_rows bump_solo_report_frame) =
     [(''bump_avg'', [Some 3, Some 1]), (''solo_avg'', [Some 5, Some 3])]"
    by (simp add: bump_solo_report_frame_def)
  have mb: "filter (\<lambda>s. group_key (Filename s) = ''bump'') bump_solo_stats =
     [\<lparr>Filename = ''bump1'', entries = [(''a_Mean'', Some 2), (''a_Std'', None)]\<rparr>,
      \<lparr>Filename = ''bump2'', entries = [(''a_Mean'', Some 4), (''a_Std'', Some 1)]\<rparr>]"
    by (simp add: bump_solo_stats_def group_key_examples)
  have ms: "filter (\<lambda>s. group_key (Filename s) = ''solo'') bump_solo_stats =
     [\<lparr>Filename = ''solo'', entries = [(''a_Mean'', Some 5), (''a_Std'', Some 3)]\<rparr>]"
    by (simp add: bump_solo_stats_def group_key_examples)
  note t = group_average_is_mean_of_numbers[OF bump_solo_saved]
  from t[OF gb, of "''bump12''"] obtain cells where
    c: "(''bump'' @ ''_avg'', cells) \<in> set (drop (length bump_solo_stats) (report_rows bump_solo_report_frame))"
    and cj: "\<forall>j < length (report_columns bump_solo_report_frame).
               cells ! j = nan_mean (map (\<lambda>s. cell s (report_columns bump_solo_report_frame ! j))
                                      (filter (\<lambda>s. group_key (Filename s) = ''bump'') bump_solo_stats)) \<and>
               (None \<notin> set (map (\<lambda>s. cell s (report_columns bump_solo_report_frame ! j))
                                 (filter (\<lambda>s. group_key (Filename s) = ''bump'') bump_solo_stats)) \<longrightarrow>
                cells ! j = arithmetic_mean (map (\<lambda>s. cell s (report_columns bump_solo_report_frame ! j))
                                      (filter (\<lambda>s. group_key (Filename s) = ''bump'') bump_solo_stats)))"
    and k: "group_key ''bump12'' = (if takeWhile is_alpha ''bump12'' = [] then ''Other'' else takeWhile is_alpha ''bump12'')"
    by blast
  have cells: "cells = [Some 3, Some 1]" using c by (simp add: l rows)
  have 1: "(''bump_avg'', [Some 3, Some 1]) \<in> set (drop 3 (report_rows bump_solo_report_frame))"
    using c cells by (simp add: l)
  have j0: "0 < length (report_columns bump_solo_report_frame)" by (simp add: cols)
  have nn: "None \<notin> set (map (\<lambda>s. cell s (report_columns bump_solo_report_frame ! 0))
                                 (filter (\<lambda>s. group_key (Filename s) = ''bump'') bump_solo_stats))"
    by (simp add: cols mb cell_def)
  from cj[rule_format, OF j0, THEN conjunct2, rule_format, OF nn]
  have "cells ! 0 = arithmetic_mean [Some 2, Some 4]" by (simp add: cols mb cell_def)
  then have 2: "arithmetic_mean [Some 2, Some 4] = Some 3"
    by (simp add: cells mb cell_def)
  have j1: "1 < length (report_columns bump_solo_report_frame)" by (simp add: cols)
  from cj[rule_format, OF j1, THEN conjunct1]
  have "cells ! 1 = nan_mean [None, Some 1]" by (simp add: cols mb cell_def)
  then have 3: "nan_mean [None, Some 1] = Some 1"
    by (simp add: cells mb cell_def)
  have 4: "group_key ''bump12'' = ''bump''" using k by (simp add: is_alpha_def)
  from t[OF gs, of "''12''"] obtain cells' where
    c': "(''solo'' @ ''_avg'', cells') \<in> set (drop (length bump_solo_stats) (report_rows bump_solo_report_frame))"
    and s': "\<forall>s. filter (\<lambda>s. group_key (Filename s) = ''solo'') bump_solo_stats = [s] \<longrightarrow>
                 cells' = map (cell s) (report_columns bump_solo_report_frame)"
    and k': "group_key ''12'' = (if takeWhile is_alpha ''12'' = [] then ''Other'' else takeWhile is_alpha ''12'')"
    by blast
  have "cells' = [Some 5, Some 3]" using s'[rule_format, OF ms] by (simp add: cols cell_def)
  then have 5: "(''solo_avg'', [Some 5, Some 3]) \<in> set (drop 3 (report_rows bump_solo_report_frame))"
    using c' by (simp add: l)
  have 6: "group_key ''12'' = ''Other''" using k' by (simp add: is_alpha_def)
  show ?thesis using bump_solo_saved gb gs 1 2 3 4 5 6 ms by simp
qed

end
